theory Spec2Isabelle
  imports Complex_Main "HOL-Library.Log_Nat"
begin

section \<open>JavaScript numbers\<close>

text \<open>
  The relay computes the gas price and the metric costs with JavaScript numbers, that is
  with IEEE-754 binary64 values. A number is a finite value (a rational that is exactly
  representable), an infinity or NaN. The sign of zero is not kept: no operation of the
  relay can tell \<open>-0\<close> from \<open>+0\<close> (every divisor is the literal \<open>1000\<close> or an integer
  field of a decoded protobuf message, hence never \<open>-0\<close>).
\<close>

datatype number = Fin rat | PInf | NInf | NaN

text \<open>\<open>ilog2 x\<close> is the binary exponent of a rational \<open>x \<noteq> 0\<close>: \<open>2 powi ilog2 x \<le> \<bar>x\<bar> < 2 powi (ilog2 x + 1)\<close>.\<close>

definition ilog2 :: "rat \<Rightarrow> int" where
  "ilog2 x = (if 1 \<le> \<bar>x\<bar> then bitlen \<lfloor>\<bar>x\<bar>\<rfloor> - 1 else - bitlen (\<lceil>1 / \<bar>x\<bar>\<rceil> - 1))"

definition roundHalfEven :: "rat \<Rightarrow> int" where
  "roundHalfEven q =
     (let f = \<lfloor>q\<rfloor>; d = q - of_int f
      in if d < 1 / 2 then f else if 1 / 2 < d then f + 1 else if even f then f else f + 1)"

text \<open>
  Rounding of an exact result to binary64, to nearest with ties to even: 53 significant
  bits, gradual underflow below \<open>2 powi - 1022\<close>, overflow to an infinity from \<open>2 ^ 1024\<close>.
\<close>

definition rnd :: "rat \<Rightarrow> number" where
  "rnd x =
     (if x = 0 then Fin 0
      else let e = max (ilog2 x) (- 1022);
               u = 2 powi (e - 52);
               y = of_int (roundHalfEven (x / u)) * u
           in if 2 ^ 1024 \<le> \<bar>y\<bar> then (if 0 < x then PInf else NInf) else Fin y)"

text \<open>The operator \<open>/\<close> of JavaScript.\<close>

fun js_div :: "number \<Rightarrow> number \<Rightarrow> number" where
  "js_div NaN _ = NaN"
| "js_div _ NaN = NaN"
| "js_div (Fin x) (Fin y) =
     (if y = 0 then (if x = 0 then NaN else if 0 < x then PInf else NInf) else rnd (x / y))"
| "js_div (Fin x) _ = Fin 0"
| "js_div PInf (Fin y) = (if 0 \<le> y then PInf else NInf)"
| "js_div NInf (Fin y) = (if 0 \<le> y then NInf else PInf)"
| "js_div _ _ = NaN"

text \<open>The operator \<open>*\<close> of JavaScript.\<close>

fun js_mul :: "number \<Rightarrow> number \<Rightarrow> number" where
  "js_mul NaN _ = NaN"
| "js_mul _ NaN = NaN"
| "js_mul (Fin x) (Fin y) = rnd (x * y)"
| "js_mul (Fin x) PInf = (if x = 0 then NaN else if 0 < x then PInf else NInf)"
| "js_mul (Fin x) NInf = (if x = 0 then NaN else if 0 < x then NInf else PInf)"
| "js_mul PInf (Fin y) = (if y = 0 then NaN else if 0 < y then PInf else NInf)"
| "js_mul NInf (Fin y) = (if y = 0 then NaN else if 0 < y then NInf else PInf)"
| "js_mul PInf PInf = PInf"
| "js_mul PInf NInf = NInf"
| "js_mul NInf PInf = NInf"
| "js_mul NInf NInf = PInf"

text \<open>\<open>Math.ceil\<close>.\<close>

fun Math_ceil :: "number \<Rightarrow> number" where
  "Math_ceil (Fin x) = Fin (of_int \<lceil>x\<rceil>)"
| "Math_ceil v = v"

text \<open>Truthiness of a number: \<open>0\<close> and \<open>NaN\<close> are falsy.\<close>

fun truthy :: "number \<Rightarrow> bool" where
  "truthy (Fin x) = (x \<noteq> 0)"
| "truthy NaN = False"
| "truthy _ = True"

text \<open>
  \<open>Long.toNumber()\<close>, and the conversion of any integer quantity to a number: the nearest
  binary64 value.
\<close>

definition toNumber :: "int \<Rightarrow> number" where
  "toNumber i = rnd (of_int i)"

text \<open>The decimal rendering of an integer inside a template literal.\<close>

fun digits10 :: "nat \<Rightarrow> string" where
  "digits10 n =
     (if n < 10 then [''0123456789'' ! n]
      else digits10 (n div 10) @ [''0123456789'' ! (n mod 10)])"

definition String_of_int :: "int \<Rightarrow> string" where
  "String_of_int i = (if i < 0 then ''-'' @ digits10 (nat (- i)) else digits10 (nat i))"

section \<open>Data of the SDK\<close>

text \<open>
  A status of the network, with its numeric code (the field \<open>_code\<close>). The table of
  statuses belongs to the SDK, which is not part of the sources at hand: the three statuses
  that the relay and the examples name are given with the codes of the response codes of
  the network. The properties below hold for every status; of the codes they only use
  whether a code is \<open>0\<close>.
\<close>

datatype Status = Status (code: int)

definition Status_Success :: Status where
  "Status_Success = Status 22"

definition Status_Unknown :: Status where
  "Status_Unknown = Status 21"

definition Status_InsufficientPayerBalance :: Status where
  "Status_InsufficientPayerBalance = Status 10"

text \<open>
  What a \<open>catch\<close> clause can receive: an exception of the SDK (with its class name, its
  message, its stack and, for a failure reported by the network, a status), an
  \<open>Error\<close> made by the relay with \<open>new Error(message)\<close>, which carries a message
  only, or a \<open>TypeError\<close> of the runtime.
\<close>

record SdkError =
  errName :: string
  errMessage :: string
  errStack :: string
  errStatus :: "Status option"

datatype thrown = Native SdkError | Error string | TypeError string

fun status_of :: "thrown \<Rightarrow> Status option" where
  "status_of (Native e) = errStatus e"
| "status_of _ = None"

fun message_of :: "thrown \<Rightarrow> string" where
  "message_of (Native e) = errMessage e"
| "message_of (Error m) = m"
| "message_of (TypeError m) = m"

text \<open>The test \<open>e.status && e.status._code\<close>: a status is there and its code is not \<open>0\<close>.\<close>

definition hasStatusCode :: "thrown \<Rightarrow> bool" where
  "hasStatusCode e = (case status_of e of None \<Rightarrow> False | Some st \<Rightarrow> code st \<noteq> 0)"

record ContractId =
  shard :: int
  realm :: int
  num :: int
  evmAddress :: "string option"

datatype QueryBody =
    FileContentsQuery string
  | ContractCallQuery ContractId "nat list" number

record Query =
  body :: QueryBody
  paymentTransactionId :: "string option"
  queryPayment :: "int option"

fun constructorName :: "Query \<Rightarrow> string" where
  "constructorName q =
     (case body q of
        FileContentsQuery _ \<Rightarrow> ''FileContentsQuery''
      | ContractCallQuery _ _ _ \<Rightarrow> ''ContractCallQuery'')"

datatype Transaction = EthereumTransaction "nat list"

fun transactionConstructorName :: "Transaction \<Rightarrow> string" where
  "transactionConstructorName (EthereumTransaction _) = ''EthereumTransaction''"

record TransactionReceipt =
  status :: Status

record TransactionRecord =
  receipt :: TransactionReceipt
  transactionFee :: int

text \<open>
  A transaction response. The field \<open>getRecord\<close> is \<open>None\<close> when the object has no such
  method, and otherwise holds what awaiting \<open>resp.getRecord(clientMain)\<close> gives.
\<close>

record TransactionResponse =
  transactionId :: string
  getRecord :: "(thrown + TransactionRecord) option"

record FeeComponents =
  contractTransactionGas :: "int option"

record FeeData =
  servicedata :: "FeeComponents option"

text \<open>\<open>hederaFunctionality\<close> holds the \<open>_code\<close> of the request type, when there is one.\<close>

record TransactionFeeSchedule =
  hederaFunctionality :: "int option"
  fees :: "FeeData list option"

record FeeSchedule =
  transactionFeeSchedule :: "TransactionFeeSchedule list option"

record FeeSchedules =
  current :: "FeeSchedule option"

record ExchangeRate =
  hbars :: int
  cents :: int

record ExchangeRates =
  currentRate :: ExchangeRate
  nextRate :: ExchangeRate

text \<open>
  The module \<open>constants\<close> is not part of the sources at hand: its values are parameters.
\<close>

record constants =
  ETH_FUNCTIONALITY_CODE :: int
  DEFAULT_TINY_BAR_GAS :: number
  EXCHANGE_RATE_FILE_ID :: string
  FEE_SCHEDULE_FILE_ID :: string

text \<open>
  The client of the consensus network, by what its calls answer. Responses are of any
  type \<open>'r\<close>. \<open>query_execute\<close> is \<open>query.execute(client)\<close>: it gives the outcome and
  the query object as the SDK leaves it (the SDK fills in the payment and the payment
  transaction id while it executes). \<open>query_getCost\<close> is \<open>query.getCost(client)\<close>,
  an amount in tinybars, and \<open>transaction_execute\<close> is \<open>transaction.execute(client)\<close>.
\<close>

record 'r Client =
  operatorAccountId :: "string option"
  query_execute :: "Query \<Rightarrow> (thrown + 'r) \<times> Query"
  query_getCost :: "Query \<Rightarrow> thrown + int"
  transaction_execute :: "Transaction \<Rightarrow> thrown + TransactionResponse"

text \<open>The functions of the SDK and of the runtime that the relay calls, as parameters.\<close>

record 'r Sdk =
  FeeSchedules_fromBytes :: "'r \<Rightarrow> thrown + FeeSchedules"
  ExchangeRates_fromBytes :: "'r \<Rightarrow> thrown + ExchangeRates"
  ContractId_fromSolidityAddress :: "string \<Rightarrow> thrown + ContractId"
  ContractId_fromEvmAddress :: "int \<Rightarrow> int \<Rightarrow> string \<Rightarrow> thrown + ContractId"
  TransactionId_generate :: "string \<Rightarrow> string"
  Buffer_from_hex :: "string \<Rightarrow> nat list"
  JSON_stringify :: "TransactionResponse \<Rightarrow> string"

section \<open>The state of the SDK client: metrics and log\<close>

text \<open>
  The histogram and the gauge belong to the metrics library: each is modelled by the
  calls it receives, in order. An observation is one call
  \<open>histogram.labels(mode, type, status).observe(cost)\<close>, a gauge call is one call
  \<open>gauge.labels(mode, type).dec(cost)\<close>, where the cost may be \<open>undefined\<close>.
\<close>

record observation =
  obsMode :: string
  obsType :: string
  obsStatus :: "Status option"
  obsCost :: number

record gaugeDec =
  decMode :: string
  decType :: string
  decCost :: "number option"

datatype logEntry =
    Info_QueryResponse string int
  | Trace_QueryCost "string option" "int option"
  | Debug_QueryResponse string int
  | Info_ExecuteTransaction string
  | Info_TransactionResponse string "string option" int
  | Trace_TransactionCost string int

record SDKClient =
  consensusNodeClientHistorgram :: "observation list"
  operatorAccountGauge :: "gaugeDec list"
  logger :: "logEntry list"

definition transactionMode :: string where
  "transactionMode = ''TRANSACTION''"

definition queryMode :: string where
  "queryMode = ''QUERY''"

definition log :: "logEntry \<Rightarrow> SDKClient \<Rightarrow> SDKClient" where
  "log entry this = this\<lparr>logger := logger this @ [entry]\<rparr>"

section \<open>The SDK client\<close>

definition startsWith :: "string \<Rightarrow> string \<Rightarrow> bool" where
  "startsWith input p = (take (length p) input = p)"

definition prepend0x :: "string \<Rightarrow> string" where
  "prepend0x input = (if startsWith input ''0x'' then input else ''0x'' @ input)"

definition prune0x :: "string \<Rightarrow> string" where
  "prune0x input = (if startsWith input ''0x'' then drop 2 input else input)"

definition captureMetrics ::
  "string \<Rightarrow> string \<Rightarrow> Status option \<Rightarrow> number option \<Rightarrow> SDKClient \<Rightarrow> SDKClient" where
  "captureMetrics mode type st cost this =
     (let resolvedCost = (case cost of None \<Rightarrow> Fin 0 | Some c \<Rightarrow> if truthy c then c else Fin 0)
      in this\<lparr>consensusNodeClientHistorgram := consensusNodeClientHistorgram this @
                 [\<lparr>obsMode = mode, obsType = type, obsStatus = st, obsCost = resolvedCost\<rparr>],
              operatorAccountGauge := operatorAccountGauge this @
                 [\<lparr>decMode = mode, decType = type, decCost = cost\<rparr>]\<rparr>)"

definition convertGasPriceToTinyBars ::
  "constants \<Rightarrow> FeeComponents option \<Rightarrow> ExchangeRates \<Rightarrow> number" where
  "convertGasPriceToTinyBars k feeComponents exchangeRates =
     (case feeComponents of
        None \<Rightarrow> DEFAULT_TINY_BAR_GAS k
      | Some fc \<Rightarrow>
          (case contractTransactionGas fc of
             None \<Rightarrow> DEFAULT_TINY_BAR_GAS k
           | Some gas \<Rightarrow>
               Math_ceil
                 (js_mul (js_div (toNumber gas) (Fin 1000))
                    (js_div (toNumber (hbars (currentRate exchangeRates)))
                       (toNumber (cents (currentRate exchangeRates)))))))"

definition executeQuery :: "Query \<Rightarrow> 'r Client \<Rightarrow> SDKClient \<Rightarrow> (thrown + 'r) \<times> SDKClient" where
  "executeQuery query client this =
     (case query_execute client query of
        (Inr resp, query') \<Rightarrow>
          (let this1 = log (Info_QueryResponse (constructorName query) (code Status_Success)) this;
               this2 = log (Trace_QueryCost (paymentTransactionId query') (queryPayment query')) this1
           in (Inr resp,
               captureMetrics queryMode (constructorName query) (Some Status_Success)
                 (map_option toNumber (queryPayment query')) this2))
      | (Inl e, query') \<Rightarrow>
          (let statusCode = (case status_of e of Some st \<Rightarrow> code st | None \<Rightarrow> code Status_Unknown);
               this1 = log (Debug_QueryResponse (constructorName query) statusCode) this;
               this2 = captureMetrics queryMode (constructorName query) (status_of e)
                         (map_option toNumber (queryPayment query')) this1
           in if hasStatusCode e then (Inl (Error (message_of e)), this2) else (Inl e, this2)))"

definition executeTransaction ::
  "Transaction \<Rightarrow> 'r Client \<Rightarrow> SDKClient \<Rightarrow> (thrown + TransactionResponse) \<times> SDKClient" where
  "executeTransaction transaction client this =
     (let transactionType = transactionConstructorName transaction;
          this1 = log (Info_ExecuteTransaction transactionType) this
      in case transaction_execute client transaction of
           Inr resp \<Rightarrow>
             (Inr resp,
              log (Info_TransactionResponse transactionType (Some (transactionId resp))
                     (code Status_Success)) this1)
         | Inl e \<Rightarrow>
             (let statusCode = (case status_of e of Some st \<Rightarrow> code st | None \<Rightarrow> code Status_Unknown);
                  this2 = log (Info_TransactionResponse transactionType None statusCode) this1
              in if hasStatusCode e then (Inl (Error (message_of e)), this2) else (Inl e, this2)))"

text \<open>The \<open>catch\<close> clause of \<open>executeGetTransactionRecord\<close>.\<close>

definition recordRetrievalCatch ::
  "thrown \<Rightarrow> string \<Rightarrow> SDKClient \<Rightarrow> (thrown + TransactionRecord) \<times> SDKClient" where
  "recordRetrievalCatch e transactionName this =
     (if hasStatusCode e
      then (Inl (Error (message_of e)),
            captureMetrics transactionMode transactionName (status_of e) (Some (Fin 0)) this)
      else (Inl e, this))"

definition executeGetTransactionRecord ::
  "'r Sdk \<Rightarrow> TransactionResponse \<Rightarrow> string \<Rightarrow> SDKClient
     \<Rightarrow> (thrown + TransactionRecord) \<times> SDKClient" where
  "executeGetTransactionRecord sdk resp transactionName this =
     (case getRecord resp of
        None \<Rightarrow>
          recordRetrievalCatch
            (Error (''Invalid response format, expected record availability: '' @
                    JSON_stringify sdk resp))
            transactionName this
      | Some (Inl e) \<Rightarrow> recordRetrievalCatch e transactionName this
      | Some (Inr transactionRecord) \<Rightarrow>
          (let this1 = log (Trace_TransactionCost (transactionId resp)
                              (transactionFee transactionRecord)) this
           in (Inr transactionRecord,
               captureMetrics transactionMode transactionName
                 (Some (status (receipt transactionRecord)))
                 (Some (toNumber (transactionFee transactionRecord))) this1)))"

definition getFileIdBytes :: "string \<Rightarrow> 'r Client \<Rightarrow> SDKClient \<Rightarrow> (thrown + 'r) \<times> SDKClient" where
  "getFileIdBytes address client this =
     executeQuery \<lparr>body = FileContentsQuery address, paymentTransactionId = None,
                   queryPayment = None\<rparr> client this"

definition getExchangeRate ::
  "constants \<Rightarrow> 'r Sdk \<Rightarrow> 'r Client \<Rightarrow> SDKClient \<Rightarrow> (thrown + ExchangeRates) \<times> SDKClient" where
  "getExchangeRate k sdk client this =
     (case getFileIdBytes (EXCHANGE_RATE_FILE_ID k) client this of
        (Inl e, this') \<Rightarrow> (Inl e, this')
      | (Inr exchangeFileBytes, this') \<Rightarrow> (ExchangeRates_fromBytes sdk exchangeFileBytes, this'))"

definition getFeeSchedule ::
  "constants \<Rightarrow> 'r Sdk \<Rightarrow> 'r Client \<Rightarrow> SDKClient \<Rightarrow> (thrown + FeeSchedules) \<times> SDKClient" where
  "getFeeSchedule k sdk client this =
     (case getFileIdBytes (FEE_SCHEDULE_FILE_ID k) client this of
        (Inl e, this') \<Rightarrow> (Inl e, this')
      | (Inr feeSchedulesFileBytes, this') \<Rightarrow>
          (FeeSchedules_fromBytes sdk feeSchedulesFileBytes, this'))"

text \<open>The test of the loop of \<open>getTinyBarGasFee\<close> on one entry of the fee schedule.\<close>

definition isEthSchedule :: "constants \<Rightarrow> TransactionFeeSchedule \<Rightarrow> bool" where
  "isEthSchedule k schedule =
     (hederaFunctionality schedule = Some (ETH_FUNCTIONALITY_CODE k) \<and> fees schedule \<noteq> None)"

text \<open>
  The loop of \<open>getTinyBarGasFee\<close>, with the \<open>throw\<close> that follows it. On the first entry
  that passes the test the exchange rate is fetched, then \<open>schedule.fees[0].servicedata\<close>
  is read, which is a \<open>TypeError\<close> on an empty array.
\<close>

fun feeScheduleLoop ::
  "constants \<Rightarrow> 'r Sdk \<Rightarrow> 'r Client \<Rightarrow> TransactionFeeSchedule list \<Rightarrow> SDKClient
     \<Rightarrow> (thrown + number) \<times> SDKClient" where
  "feeScheduleLoop k sdk client [] this =
     (Inl (Error (String_of_int (ETH_FUNCTIONALITY_CODE k) @ '' code not found in feeSchedule'')),
      this)"
| "feeScheduleLoop k sdk client (schedule # rest) this =
     (if isEthSchedule k schedule
      then (case getExchangeRate k sdk client this of
              (Inl e, this') \<Rightarrow> (Inl e, this')
            | (Inr exchangeRates, this') \<Rightarrow>
                (case the (fees schedule) of
                   [] \<Rightarrow>
                     (Inl (TypeError ''Cannot read properties of undefined (reading 'servicedata')''),
                      this')
                 | feeData # _ \<Rightarrow>
                     (Inr (convertGasPriceToTinyBars k (servicedata feeData) exchangeRates), this')))
      else feeScheduleLoop k sdk client rest this)"

definition getTinyBarGasFee ::
  "constants \<Rightarrow> 'r Sdk \<Rightarrow> 'r Client \<Rightarrow> SDKClient \<Rightarrow> (thrown + number) \<times> SDKClient" where
  "getTinyBarGasFee k sdk client this =
     (case getFeeSchedule k sdk client this of
        (Inl e, this') \<Rightarrow> (Inl e, this')
      | (Inr feeSchedules, this') \<Rightarrow>
          (case current feeSchedules of
             None \<Rightarrow> (Inl (Error ''Invalid FeeSchedules proto format''), this')
           | Some cur \<Rightarrow>
               (case transactionFeeSchedule cur of
                  None \<Rightarrow> (Inl (Error ''Invalid FeeSchedules proto format''), this')
                | Some schedules \<Rightarrow> feeScheduleLoop k sdk client schedules this')))"

definition submitEthereumTransaction ::
  "nat list \<Rightarrow> 'r Client \<Rightarrow> SDKClient \<Rightarrow> (thrown + TransactionResponse) \<times> SDKClient" where
  "submitEthereumTransaction transactionBuffer client this =
     executeTransaction (EthereumTransaction transactionBuffer) client this"

text \<open>
  The query that \<open>submitContractCallQuery\<close> builds before it asks for the cost.
\<close>

definition contractCallQuery :: "'r Sdk \<Rightarrow> 'r Client \<Rightarrow> ContractId \<Rightarrow> string \<Rightarrow> number \<Rightarrow> Query" where
  "contractCallQuery sdk client contractId callData gas =
     \<lparr>body = ContractCallQuery contractId (Buffer_from_hex sdk callData) gas,
      paymentTransactionId =
        (case operatorAccountId client of
           None \<Rightarrow> None
         | Some operator \<Rightarrow> Some (TransactionId_generate sdk operator)),
      queryPayment = None\<rparr>"

definition submitContractCallQuery ::
  "'r Sdk \<Rightarrow> string \<Rightarrow> string \<Rightarrow> number \<Rightarrow> 'r Client \<Rightarrow> SDKClient \<Rightarrow> (thrown + 'r) \<times> SDKClient" where
  "submitContractCallQuery sdk to data gas client this =
     (let contract = prune0x to;
          callData = prune0x data
      in case (if startsWith contract ''00000000000''
               then ContractId_fromSolidityAddress sdk contract
               else ContractId_fromEvmAddress sdk 0 0 contract) of
           Inl e \<Rightarrow> (Inl e, this)
         | Inr contractId \<Rightarrow>
             (let query = contractCallQuery sdk client contractId callData gas
              in case query_getCost client query of
                   Inl e \<Rightarrow> (Inl e, this)
                 | Inr cost \<Rightarrow> executeQuery (query\<lparr>queryPayment := Some cost\<rparr>) client this))"

section \<open>Addresses\<close>

text \<open>
  An address string, as the helpers \<open>prepend0x\<close> and \<open>prune0x\<close> expect it: hexadecimal
  digits, with or without a leading \<open>0x\<close>.
\<close>

definition isHexDigit :: "char \<Rightarrow> bool" where
  "isHexDigit c = (c \<in> set ''0123456789abcdefABCDEF'')"

definition isAddress :: "string \<Rightarrow> bool" where
  "isAddress x = list_all isHexDigit (if startsWith x ''0x'' then drop 2 x else x)"

section \<open>The formula of the specification\<close>

text \<open>
  The gas price as the specification words it, \<open>ceil((gasComponent / 1000) * (hbars / cents))\<close>,
  read in exact arithmetic. It is compared below with \<open>convertGasPriceToTinyBars\<close>.
\<close>

definition spec_gasPrice :: "int \<Rightarrow> ExchangeRate \<Rightarrow> int" where
  "spec_gasPrice gasComponent rate =
     \<lceil>(rat_of_int gasComponent / 1000) * (rat_of_int (hbars rate) / rat_of_int (cents rate))\<rceil>"

section \<open>Example inputs\<close>

text \<open>A failure that the network reports with the status \<open>INSUFFICIENT_PAYER_BALANCE\<close>.\<close>

definition insufficientPayerBalanceFailure :: thrown where
  "insufficientPayerBalanceFailure =
     Native \<lparr>errName = ''PrecheckStatusError'',
             errMessage = ''transaction failed precheck with status INSUFFICIENT_PAYER_BALANCE'',
             errStack = ''PrecheckStatusError: transaction failed precheck at Executable.execute'',
             errStatus = Some Status_InsufficientPayerBalance\<rparr>"

text \<open>A failure of the SDK that carries no status.\<close>

definition maxAttemptsFailure :: thrown where
  "maxAttemptsFailure =
     Native \<lparr>errName = ''Error'',
             errMessage = ''max attempts of 10 was reached for request'',
             errStack = ''Error: max attempts of 10 was reached at Executable.execute'',
             errStatus = None\<rparr>"

definition freshClient :: SDKClient where
  "freshClient = \<lparr>consensusNodeClientHistorgram = [], operatorAccountGauge = [], logger = []\<rparr>"

text \<open>A contract call query whose payment of 5 tinybars is already set.\<close>

definition paidQuery :: Query where
  "paidQuery =
     \<lparr>body = ContractCallQuery \<lparr>shard = 0, realm = 0, num = 1000, evmAddress = None\<rparr> [] (Fin 30000),
      paymentTransactionId = Some ''0.0.2@1660000000.000000000'',
      queryPayment = Some 5\<rparr>"

definition freeQuery :: Query where
  "freeQuery =
     \<lparr>body = FileContentsQuery ''0.0.111'', paymentTransactionId = None, queryPayment = None\<rparr>"

text \<open>A client whose network rejects every call with the given failure.\<close>

definition failingClient :: "thrown \<Rightarrow> Query Client" where
  "failingClient e =
     \<lparr>operatorAccountId = Some ''0.0.2'',
      query_execute = (\<lambda>q. (Inl e, q)),
      query_getCost = (\<lambda>q. Inl e),
      transaction_execute = (\<lambda>t. Inl e)\<rparr>"

text \<open>A client whose network answers every query with the query it received, at cost 5.\<close>

definition echoClient :: "Query Client" where
  "echoClient =
     \<lparr>operatorAccountId = Some ''0.0.2'',
      query_execute = (\<lambda>q. (Inr q, q)),
      query_getCost = (\<lambda>q. Inr 5),
      transaction_execute =
        (\<lambda>t. Inr \<lparr>transactionId = ''0.0.2@1660000000.000000001'', getRecord = None\<rparr>)\<rparr>"

definition exampleSdk :: "Query Sdk" where
  "exampleSdk =
     \<lparr>FeeSchedules_fromBytes = (\<lambda>r. Inl (Error ''not a fee schedule'')),
      ExchangeRates_fromBytes = (\<lambda>r. Inl (Error ''not an exchange rate'')),
      ContractId_fromSolidityAddress =
        (\<lambda>a. Inr \<lparr>shard = 0, realm = 0, num = 1000, evmAddress = None\<rparr>),
      ContractId_fromEvmAddress =
        (\<lambda>s r a. Inr \<lparr>shard = s, realm = r, num = 0, evmAddress = Some a\<rparr>),
      TransactionId_generate = (\<lambda>a. a @ ''@1660000000.000000000''),
      Buffer_from_hex = (\<lambda>h. []),
      JSON_stringify = (\<lambda>r. ''{}'')\<rparr>"

definition settledRecord :: TransactionRecord where
  "settledRecord = \<lparr>receipt = \<lparr>status = Status_Success\<rparr>, transactionFee = 1234567\<rparr>"

definition exampleConstants :: constants where
  "exampleConstants =
     \<lparr>ETH_FUNCTIONALITY_CODE = 84, DEFAULT_TINY_BAR_GAS = Fin 72,
      EXCHANGE_RATE_FILE_ID = ''0.0.112'', FEE_SCHEDULE_FILE_ID = ''0.0.111''\<rparr>"

text \<open>A client that serves the two system files, already decoded.\<close>

definition fileClient :: "FeeSchedules \<Rightarrow> ExchangeRates \<Rightarrow> (FeeSchedules + ExchangeRates) Client" where
  "fileClient feeSchedules exchangeRates =
     \<lparr>operatorAccountId = Some ''0.0.2'',
      query_execute =
        (\<lambda>q. (if body q = FileContentsQuery ''0.0.111'' then Inr (Inl feeSchedules)
                else Inr (Inr exchangeRates), q)),
      query_getCost = (\<lambda>q. Inr 0),
      transaction_execute = (\<lambda>t. Inl (Error ''no transactions''))\<rparr>"

definition fileSdk :: "(FeeSchedules + ExchangeRates) Sdk" where
  "fileSdk =
     \<lparr>FeeSchedules_fromBytes =
        (\<lambda>r. case r of Inl feeSchedules \<Rightarrow> Inr feeSchedules
              | Inr _ \<Rightarrow> Inl (Error ''not a fee schedule'')),
      ExchangeRates_fromBytes =
        (\<lambda>r. case r of Inr exchangeRates \<Rightarrow> Inr exchangeRates
              | Inl _ \<Rightarrow> Inl (Error ''not an exchange rate'')),
      ContractId_fromSolidityAddress = (\<lambda>a. Inl (Error ''unused'')),
      ContractId_fromEvmAddress = (\<lambda>s r a. Inl (Error ''unused'')),
      TransactionId_generate = (\<lambda>a. a),
      Buffer_from_hex = (\<lambda>h. []),
      JSON_stringify = (\<lambda>r. ''{}'')\<rparr>"

definition scheduleOf :: "TransactionFeeSchedule list \<Rightarrow> FeeSchedules" where
  "scheduleOf entries = \<lparr>current = Some \<lparr>transactionFeeSchedule = Some entries\<rparr>\<rparr>"

definition cryptoTransferEntry :: TransactionFeeSchedule where
  "cryptoTransferEntry =
     \<lparr>hederaFunctionality = Some 0,
      fees = Some [\<lparr>servicedata = Some \<lparr>contractTransactionGas = Some 0\<rparr>\<rparr>]\<rparr>"

text \<open>An entry for the functionality code 84, with one fee data of the given components.\<close>

definition ethEntry :: "FeeComponents option \<Rightarrow> TransactionFeeSchedule" where
  "ethEntry components =
     \<lparr>hederaFunctionality = Some 84, fees = Some [\<lparr>servicedata = components\<rparr>]\<rparr>"

definition exampleRates :: "int \<Rightarrow> int \<Rightarrow> ExchangeRates" where
  "exampleRates h c =
     \<lparr>currentRate = \<lparr>hbars = h, cents = c\<rparr>, nextRate = \<lparr>hbars = h, cents = c\<rparr>\<rparr>"

section \<open>Rounding to binary64\<close>

lemma bitlen_ge_one: "0 < m \<Longrightarrow> 1 \<le> bitlen m"
proof (rule ccontr)
  assume m: "0 < m" and "\<not> 1 \<le> bitlen m"
  then have "nat (bitlen m) = 0" by simp
  with bitlen_bounds [OF m] have "m < 1" by simp
  with m show False by simp
qed

lemma ilog2_bounds:
  assumes "x \<noteq> 0"
  shows "2 powi ilog2 x \<le> \<bar>x\<bar> \<and> \<bar>x\<bar> < 2 powi (ilog2 x + 1)"
proof (cases "1 \<le> \<bar>x\<bar>")
  case True
  define m where "m = \<lfloor>\<bar>x\<bar>\<rfloor>"
  define b where "b = bitlen m"
  from True have m: "0 < m" by (simp add: m_def)
  have b: "1 \<le> b" using bitlen_ge_one [OF m] by (simp add: b_def)
  from bitlen_bounds [OF m] have lo: "2 ^ nat (b - 1) \<le> m" and hi: "m < 2 ^ nat b"
    by (simp_all add: b_def)
  have il: "ilog2 x = b - 1" using True by (simp add: ilog2_def m_def b_def)
  have "rat_of_int (2 ^ nat (b - 1)) \<le> rat_of_int m" using lo by (simp only: of_int_le_iff)
  also have "\<dots> \<le> \<bar>x\<bar>" by (simp add: m_def)
  finally have 1: "2 powi (b - 1) \<le> \<bar>x\<bar>" using b by (simp add: power_int_nonneg_exp)
  have "\<bar>x\<bar> < rat_of_int \<lfloor>\<bar>x\<bar>\<rfloor> + 1" by linarith
  then have "\<bar>x\<bar> < rat_of_int (m + 1)" by (simp add: m_def)
  also have "\<dots> \<le> rat_of_int (2 ^ nat b)" using hi by (simp only: of_int_le_iff)
  finally have 2: "\<bar>x\<bar> < 2 powi b" using b by (simp add: power_int_nonneg_exp)
  from 1 2 show ?thesis by (simp add: il)
next
  case False
  define t where "t = 1 / \<bar>x\<bar>"
  define m where "m = \<lceil>t\<rceil> - 1"
  define b where "b = bitlen m"
  from assms have xpos: "0 < \<bar>x\<bar>" by simp
  from False xpos have t1: "1 < t" by (simp add: t_def)
  then have "2 \<le> \<lceil>t\<rceil>" by (simp add: le_ceiling_iff) 
  then have m: "0 < m" by (simp add: m_def)
  have b: "1 \<le> b" using bitlen_ge_one [OF m] by (simp add: b_def)
  from bitlen_bounds [OF m] have lo: "2 ^ nat (b - 1) \<le> m" and hi: "m < 2 ^ nat b"
    by (simp_all add: b_def)
  have il: "ilog2 x = - b" using False by (simp add: ilog2_def m_def b_def t_def)
  have mt: "rat_of_int m < t" and tm: "t \<le> rat_of_int (m + 1)"
    by (simp_all add: m_def ceiling_correct)
  from hi have "m + 1 \<le> 2 ^ nat b" by simp
  then have "rat_of_int (m + 1) \<le> rat_of_int (2 ^ nat b)" by (simp only: of_int_le_iff)
  with tm have "t \<le> rat_of_int (2 ^ nat b)" by (rule order_trans)
  then have tb: "t \<le> 2 ^ nat b" by simp
  have "rat_of_int (2 ^ nat (b - 1)) \<le> rat_of_int m" using lo by (simp only: of_int_le_iff)
  then have "rat_of_int (2 ^ nat (b - 1)) < t" using mt by (rule le_less_trans)
  then have bt: "2 ^ nat (b - 1) < t" by simp
  have x: "\<bar>x\<bar> = 1 / t" by (simp add: t_def)
  have tpos: "0 < t" using t1 by simp
  have p1: "(2::rat) powi (- b) = 1 / 2 ^ nat b"
    using b by (simp add: power_int_minus_divide power_int_nonneg_exp)
  have p2: "(2::rat) powi (- b + 1) = 1 / 2 ^ nat (b - 1)"
  proof -
    have "- b + 1 = - (b - 1)" by simp
    then show ?thesis using b by (simp only: power_int_minus_divide) (simp add: power_int_nonneg_exp)
  qed
  have 1: "2 powi (- b) \<le> \<bar>x\<bar>"
    unfolding p1 x using tb tpos by (simp add: frac_le)
  have 2: "\<bar>x\<bar> < 2 powi (- b + 1)"
    unfolding p2 x using bt tpos by (simp add: frac_less2)
  from 1 2 show ?thesis by (simp add: il)
qed

lemma ilog2_unique:
  assumes "2 powi e \<le> \<bar>x\<bar>" and "\<bar>x\<bar> < 2 powi (e + 1)"
  shows "ilog2 x = e"
proof -
  have "(0::rat) < 2 powi e" by simp
  then have "0 < \<bar>x\<bar>" using assms(1) by (rule less_le_trans)
  then have "x \<noteq> 0" by simp
  from ilog2_bounds [OF this]
  have lo: "2 powi ilog2 x \<le> \<bar>x\<bar>" and hi: "\<bar>x\<bar> < 2 powi (ilog2 x + 1)" by simp_all
  have "\<not> ilog2 x < e"
  proof
    assume "ilog2 x < e"
    then have "ilog2 x + 1 \<le> e" by simp
    then have "(2::rat) powi (ilog2 x + 1) \<le> 2 powi e" by (intro power_int_increasing) simp_all
    with hi assms(1) show False by simp
  qed
  moreover have "\<not> e < ilog2 x"
  proof
    assume "e < ilog2 x"
    then have "e + 1 \<le> ilog2 x" by simp
    then have "(2::rat) powi (e + 1) \<le> 2 powi ilog2 x" by (intro power_int_increasing) simp_all
    with lo assms(2) show False by simp
  qed
  ultimately show ?thesis by simp
qed

lemma roundHalfEven_unique:
  assumes "\<bar>q - of_int n\<bar> < 1 / 2"
  shows "roundHalfEven q = n"
proof -
  have f: "of_int \<lfloor>q\<rfloor> \<le> q" "q < of_int \<lfloor>q\<rfloor> + 1" by linarith+
  from assms have n: "of_int n - 1 / 2 < q" "q < of_int n + 1 / 2" by linarith+
  have cases: "\<lfloor>q\<rfloor> = n \<or> \<lfloor>q\<rfloor> = n - 1"
  proof -
    have "rat_of_int \<lfloor>q\<rfloor> < of_int n + 1 / 2" using f n by linarith
    then have "rat_of_int \<lfloor>q\<rfloor> < of_int (n + 1)" by simp
    then have a: "\<lfloor>q\<rfloor> < n + 1" by (simp only: of_int_less_iff)
    have "rat_of_int n - 1 / 2 < of_int \<lfloor>q\<rfloor> + 1" using f n by linarith
    then have "rat_of_int (n - 2) < of_int \<lfloor>q\<rfloor>" by simp
    then have "n - 2 < \<lfloor>q\<rfloor>" by (simp only: of_int_less_iff)
    with a show ?thesis by linarith
  qed
  then show ?thesis
  proof
    assume eq: "\<lfloor>q\<rfloor> = n"
    with n have "q - of_int \<lfloor>q\<rfloor> < 1 / 2" by simp
    then show ?thesis by (simp add: roundHalfEven_def Let_def eq)
  next
    assume eq: "\<lfloor>q\<rfloor> = n - 1"
    with n have "1 / 2 < q - of_int \<lfloor>q\<rfloor>" by simp
    then show ?thesis by (simp add: roundHalfEven_def Let_def eq)
  qed
qed

lemma rnd_eqI:
  assumes lo: "2 powi e \<le> \<bar>x\<bar>" and hi: "\<bar>x\<bar> < 2 powi (e + 1)"
    and e: "- 1022 \<le> e"
    and n: "\<bar>x / 2 powi (e - 52) - of_int n\<bar> < 1 / 2"
    and y: "\<bar>rat_of_int n * 2 powi (e - 52)\<bar> < 2 ^ 1024"
  shows "rnd x = Fin (of_int n * 2 powi (e - 52))"
proof -
  have "(0::rat) < 2 powi e" by simp
  then have "0 < \<bar>x\<bar>" using lo by (rule less_le_trans)
  then have nz: "x \<noteq> 0" by simp
  have il: "ilog2 x = e" using lo hi by (rule ilog2_unique)
  have mx: "max e (- 1022) = e" using e by simp
  have r: "roundHalfEven (x / 2 powi (e - 52)) = n" using n by (rule roundHalfEven_unique)
  show ?thesis
    unfolding rnd_def Let_def il mx r using nz y by simp
qed

lemma roundHalfEven_of_int: "roundHalfEven (of_int n) = n"
  by (simp add: roundHalfEven_def)

text \<open>Integers up to \<open>2 ^ 53\<close> in absolute value are binary64 values.\<close>

lemma rnd_of_int:
  assumes "\<bar>i\<bar> \<le> 2 ^ 53"
  shows "rnd (of_int i) = Fin (of_int i)"
proof (cases "i = 0")
  case True
  then show ?thesis by (simp add: rnd_def)
next
  case False
  define e where "e = bitlen \<bar>i\<bar> - 1"
  from False have pos: "0 < \<bar>i\<bar>" by simp
  from bitlen_bounds [OF pos] have lo: "2 ^ nat e \<le> \<bar>i\<bar>" and hi: "\<bar>i\<bar> < 2 ^ nat (e + 1)"
    by (simp_all add: e_def)
  have e0: "0 \<le> e" using bitlen_ge_one [OF pos] by (simp add: e_def)
  have e53: "e \<le> 53"
  proof (rule ccontr)
    assume "\<not> e \<le> 53"
    then have "54 \<le> nat e" by simp
    then have "(2::int) ^ 54 \<le> 2 ^ nat e" by (rule power_increasing) simp
    with lo assms show False by simp
  qed
  obtain n :: int where n: "rat_of_int i / 2 powi (e - 52) = of_int n"
  proof (cases "e \<le> 52")
    case True
    then have "2 powi (e - 52) = 1 / (2::rat) ^ nat (52 - e)"
      by (simp add: power_int_def field_simps)
    then have "rat_of_int i / 2 powi (e - 52) = of_int (i * 2 ^ nat (52 - e))" by simp
    then show ?thesis by (rule that)
  next
    case False
    with e53 have e: "e = 53" by simp
    with lo assms have "\<bar>i\<bar> = 2 ^ 53" by simp
    then have "i = 2 ^ 53 \<or> i = - (2 ^ 53)" by linarith
    then have "rat_of_int i / 2 powi (e - 52) = of_int (i div 2)"
      unfolding e by (auto simp: power_int_def)
    then show ?thesis by (rule that)
  qed
  have u: "(2::rat) powi (e - 52) \<noteq> 0" by simp
  from n have restore: "of_int n * 2 powi (e - 52) = rat_of_int i"
    using u by (metis nonzero_divide_eq_eq)
  have small: "\<not> 2 ^ 1024 \<le> \<bar>rat_of_int i\<bar>"
  proof -
    have "\<bar>rat_of_int i\<bar> = rat_of_int \<bar>i\<bar>" by simp
    also have "\<dots> \<le> rat_of_int (2 ^ 53)" using assms by (simp only: of_int_le_iff)
    also have "\<dots> < 2 ^ 1024" by simp
    finally show ?thesis by simp
  qed
  have "2 powi e \<le> \<bar>rat_of_int i\<bar>"
  proof -
    have "rat_of_int (2 ^ nat e) \<le> rat_of_int \<bar>i\<bar>" using lo by (simp only: of_int_le_iff)
    then show ?thesis using e0 by (simp add: power_int_nonneg_exp)
  qed
  moreover have "\<bar>rat_of_int i\<bar> < 2 powi (e + 1)"
  proof -
    have "rat_of_int \<bar>i\<bar> < rat_of_int (2 ^ nat (e + 1))" using hi by (simp only: of_int_less_iff)
    then show ?thesis using e0 by (simp add: power_int_nonneg_exp)
  qed
  ultimately have il: "ilog2 (of_int i) = e" by (rule ilog2_unique)
  have mx: "max e (- 1022) = e" using e0 by simp
  from False have nz: "rat_of_int i \<noteq> 0" by simp
  show ?thesis
    unfolding rnd_def Let_def il mx n roundHalfEven_of_int restore
    using nz small by simp
qed

lemma toNumber_exact: "\<bar>i\<bar> \<le> 2 ^ 53 \<Longrightarrow> toNumber i = Fin (of_int i)"
  by (simp add: toNumber_def rnd_of_int)

section \<open>Metrics recorded by the executor\<close>

lemma rnd_not_NaN: "rnd x \<noteq> NaN"
  by (simp add: rnd_def Let_def)

lemma truthy_iff: "truthy c \<longleftrightarrow> \<not> (c = Fin 0 \<or> c = NaN)"
  by (cases c) auto

lemma resolvedCost_toNumber:
  "(if truthy (toNumber i) then toNumber i else Fin 0) = toNumber i"
  using rnd_not_NaN [of "of_int i"] by (auto simp: truthy_iff toNumber_def)

lemma histogram_captureMetrics:
  "consensusNodeClientHistorgram (captureMetrics mode type st cost this) =
     consensusNodeClientHistorgram this @
       [\<lparr>obsMode = mode, obsType = type, obsStatus = st,
         obsCost = (case cost of None \<Rightarrow> Fin 0 | Some c \<Rightarrow> if truthy c then c else Fin 0)\<rparr>]"
  by (simp add: captureMetrics_def)

lemma gauge_captureMetrics:
  "operatorAccountGauge (captureMetrics mode type st cost this) =
     operatorAccountGauge this @ [\<lparr>decMode = mode, decType = type, decCost = cost\<rparr>]"
  by (simp add: captureMetrics_def)

lemma logger_captureMetrics:
  "logger (captureMetrics mode type st cost this) = logger this"
  by (simp add: captureMetrics_def)

lemma histogram_log: "consensusNodeClientHistorgram (log entry this) = consensusNodeClientHistorgram this"
  by (simp add: log_def)

lemma gauge_log: "operatorAccountGauge (log entry this) = operatorAccountGauge this"
  by (simp add: log_def)

lemma histogram_executeQuery_failure:
  assumes "query_execute client query = (Inl e, query')"
  shows "consensusNodeClientHistorgram (snd (executeQuery query client this)) =
     consensusNodeClientHistorgram this @
       [\<lparr>obsMode = queryMode, obsType = constructorName query, obsStatus = status_of e,
         obsCost = (case queryPayment query' of None \<Rightarrow> Fin 0 | Some p \<Rightarrow> toNumber p)\<rparr>]"
  using assms
  by (simp add: executeQuery_def Let_def histogram_captureMetrics histogram_log
      resolvedCost_toNumber split: option.splits del: constructorName.simps)

lemma histogram_executeQuery_success:
  assumes "query_execute client query = (Inr resp, query')"
  shows "consensusNodeClientHistorgram (snd (executeQuery query client this)) =
     consensusNodeClientHistorgram this @
       [\<lparr>obsMode = queryMode, obsType = constructorName query, obsStatus = Some Status_Success,
         obsCost = (case queryPayment query' of None \<Rightarrow> Fin 0 | Some p \<Rightarrow> toNumber p)\<rparr>]"
  using assms
  by (simp add: executeQuery_def Let_def histogram_captureMetrics histogram_log
      resolvedCost_toNumber split: option.splits del: constructorName.simps)

lemma fst_executeQuery_failure:
  assumes "query_execute client query = (Inl e, query')"
  shows "fst (executeQuery query client this) =
           Inl (if hasStatusCode e then Error (message_of e) else e)"
  using assms by (simp add: executeQuery_def Let_def)

lemma fst_executeTransaction_failure:
  assumes "transaction_execute client transaction = Inl e"
  shows "fst (executeTransaction transaction client this) =
           Inl (if hasStatusCode e then Error (message_of e) else e)"
  using assms by (simp add: executeTransaction_def Let_def)

lemma histogram_executeTransaction:
  "consensusNodeClientHistorgram (snd (executeTransaction transaction client this)) =
     consensusNodeClientHistorgram this"
  by (simp add: executeTransaction_def Let_def histogram_log split: sum.splits)

lemma gauge_executeTransaction:
  "operatorAccountGauge (snd (executeTransaction transaction client this)) =
     operatorAccountGauge this"
  by (simp add: executeTransaction_def Let_def gauge_log split: sum.splits)

lemma executeGetTransactionRecord_success:
  assumes "getRecord resp = Some (Inr transactionRecord)"
  shows "fst (executeGetTransactionRecord sdk resp transactionName this) = Inr transactionRecord"
    and "consensusNodeClientHistorgram (snd (executeGetTransactionRecord sdk resp transactionName this)) =
       consensusNodeClientHistorgram this @
         [\<lparr>obsMode = transactionMode, obsType = transactionName,
           obsStatus = Some (status (receipt transactionRecord)),
           obsCost = toNumber (transactionFee transactionRecord)\<rparr>]"
  using assms
  by (simp_all add: executeGetTransactionRecord_def Let_def histogram_captureMetrics
      histogram_log resolvedCost_toNumber)

lemma executeGetTransactionRecord_status_failure:
  assumes "getRecord resp = Some (Inl e)" and "hasStatusCode e"
  shows "fst (executeGetTransactionRecord sdk resp transactionName this) = Inl (Error (message_of e))"
    and "consensusNodeClientHistorgram (snd (executeGetTransactionRecord sdk resp transactionName this)) =
       consensusNodeClientHistorgram this @
         [\<lparr>obsMode = transactionMode, obsType = transactionName,
           obsStatus = status_of e, obsCost = Fin 0\<rparr>]"
  using assms
  by (simp_all add: executeGetTransactionRecord_def recordRetrievalCatch_def
      histogram_captureMetrics)

lemma executeGetTransactionRecord_other_failure:
  assumes "getRecord resp = Some (Inl e)" and "\<not> hasStatusCode e"
  shows "executeGetTransactionRecord sdk resp transactionName this = (Inl e, this)"
  using assms
  by (simp add: executeGetTransactionRecord_def recordRetrievalCatch_def)

lemma executeGetTransactionRecord_unsupported:
  assumes "getRecord resp = None"
  shows "executeGetTransactionRecord sdk resp transactionName this =
     (Inl (Error (''Invalid response format, expected record availability: '' @
                   JSON_stringify sdk resp)), this)"
  using assms
  by (simp add: executeGetTransactionRecord_def recordRetrievalCatch_def hasStatusCode_def)

section \<open>Prefixes\<close>

lemma startsWith_iff_append: "startsWith s p \<longleftrightarrow> (\<exists>r. s = p @ r)"
proof
  assume "startsWith s p"
  then have "s = p @ drop (length p) s"
    by (metis append_take_drop_id startsWith_def)
  then show "\<exists>r. s = p @ r" ..
next
  assume "\<exists>r. s = p @ r"
  then show "startsWith s p" by (auto simp: startsWith_def)
qed

lemma startsWith_0x0x:
  "startsWith x ''0x0x'' \<longleftrightarrow> startsWith x ''0x'' \<and> startsWith (drop 2 x) ''0x''"
  by (auto simp: startsWith_iff_append)

text \<open>
  Pruning and then prepending gives back the prefixed string, unless the string starts
  with \<open>0x0x\<close>: then only the first of the two prefixes is removed and none is added.
\<close>

lemma prepend0x_prune0x_general:
  assumes "\<not> startsWith x ''0x0x''"
  shows "prepend0x (prune0x x) = prepend0x x"
proof (cases "startsWith x ''0x''")
  case True
  then obtain r where x: "x = ''0x'' @ r" by (auto simp: startsWith_iff_append)
  from assms True have "\<not> startsWith (drop 2 x) ''0x''" by (simp add: startsWith_0x0x)
  with x have "\<not> startsWith r ''0x''" by simp
  with True x show ?thesis by (simp add: prepend0x_def prune0x_def)
next
  case False
  then show ?thesis by (simp add: prepend0x_def prune0x_def)
qed

lemma prune0x_prepend0x: "prune0x (prepend0x x) = prune0x x"
  by (simp add: prepend0x_def prune0x_def startsWith_def)

lemma isAddress_not_0x0x:
  assumes "isAddress x"
  shows "\<not> startsWith x ''0x0x''"
proof
  assume "startsWith x ''0x0x''"
  then obtain r where x: "x = ''0x0x'' @ r" by (auto simp: startsWith_iff_append)
  then have "startsWith x ''0x''" by (simp add: startsWith_def)
  with assms x have "list_all isHexDigit (''0x'' @ r)" by (simp add: isAddress_def)
  then show False by (simp add: isHexDigit_def)
qed

text \<open>
  Claim C6. For every address string \<open>x\<close>, with or without a leading \<open>0x\<close>, pruning and
  then prepending gives the same as prepending, and prepending and then pruning gives the
  same as pruning.
\<close>

theorem address_round_trip:
  assumes "isAddress x"
  shows "prepend0x (prune0x x) = prepend0x x \<and> prune0x (prepend0x x) = prune0x x"
  using assms by (simp add: prepend0x_prune0x_general isAddress_not_0x0x prune0x_prepend0x)

theorem address_round_trip_witness:
  "isAddress ''0x00000000000000000000000000000000000003e8''
   \<and> prepend0x (prune0x ''0x00000000000000000000000000000000000003e8'') =
       ''0x00000000000000000000000000000000000003e8''
   \<and> prune0x (prepend0x ''0x00000000000000000000000000000000000003e8'') =
       ''00000000000000000000000000000000000003e8''
   \<and> isAddress ''05fba803be258049a27b820088bab1cad2058871''
   \<and> prepend0x (prune0x ''05fba803be258049a27b820088bab1cad2058871'') =
       ''0x05fba803be258049a27b820088bab1cad2058871''
   \<and> prune0x (prepend0x ''05fba803be258049a27b820088bab1cad2058871'') =
       ''05fba803be258049a27b820088bab1cad2058871''"
  using address_round_trip [of "''0x00000000000000000000000000000000000003e8''"]
    address_round_trip [of "''05fba803be258049a27b820088bab1cad2058871''"]
  by (simp add: isAddress_def isHexDigit_def startsWith_def prepend0x_def prune0x_def)

text \<open>
  Claim C10. For every string \<open>s\<close>, \<open>prepend0x\<close> is idempotent.
\<close>

theorem prepend0x_idempotent: "prepend0x (prepend0x s) = prepend0x s"
  by (simp add: prepend0x_def startsWith_def)

theorem prepend0x_idempotent_witness:
  "prepend0x (prepend0x ''abc'') = ''0xabc'' \<and> prepend0x (prepend0x ''0xabc'') = ''0xabc''"
  using prepend0x_idempotent [of "''abc''"] prepend0x_idempotent [of "''0xabc''"]
  by (simp add: prepend0x_def startsWith_def)

section \<open>The gauge and the number of observations\<close>

lemma gauge_executeQuery:
  "operatorAccountGauge (snd (executeQuery query client this)) =
     operatorAccountGauge this @
       [\<lparr>decMode = queryMode, decType = constructorName query,
         decCost = map_option toNumber (queryPayment (snd (query_execute client query)))\<rparr>]"
proof (cases "query_execute client query")
  case (Pair r query')
  then show ?thesis
    by (cases r)
      (simp_all add: executeQuery_def Let_def gauge_captureMetrics gauge_log
        del: constructorName.simps)
qed

lemma length_histogram_executeQuery:
  "length (consensusNodeClientHistorgram (snd (executeQuery query client this))) =
     length (consensusNodeClientHistorgram this) + 1"
proof (cases "query_execute client query")
  case (Pair r query')
  then show ?thesis
    by (cases r)
      (simp_all add: histogram_executeQuery_failure histogram_executeQuery_success
        del: constructorName.simps)
qed

lemma gauge_executeGetTransactionRecord_success:
  assumes "getRecord resp = Some (Inr transactionRecord)"
  shows "operatorAccountGauge (snd (executeGetTransactionRecord sdk resp transactionName this)) =
       operatorAccountGauge this @
         [\<lparr>decMode = transactionMode, decType = transactionName,
           decCost = Some (toNumber (transactionFee transactionRecord))\<rparr>]"
  using assms
  by (simp add: executeGetTransactionRecord_def Let_def gauge_captureMetrics gauge_log)

section \<open>The error of the gas price\<close>

text \<open>The relative error of a rounding in the normal range is at most \<open>1 / 2 ^ 53\<close>.\<close>

lemma roundHalfEven_error: "\<bar>q - of_int (roundHalfEven q)\<bar> \<le> 1 / 2"
proof -
  have f: "of_int \<lfloor>q\<rfloor> \<le> q" "q < of_int \<lfloor>q\<rfloor> + 1" by linarith+
  show ?thesis
    using f by (auto simp: roundHalfEven_def Let_def abs_le_iff)
qed

lemma rnd_relative_error:
  assumes lo: "2 powi (- 1022) \<le> \<bar>x\<bar>" and hi: "\<bar>x\<bar> < 2 ^ 1023"
  shows "\<exists>y. rnd x = Fin y \<and> \<bar>y - x\<bar> \<le> \<bar>x\<bar> / 2 ^ 53"
proof -
  define e where "e = ilog2 x"
  define u :: rat where "u = 2 powi (e - 52)"
  define n where "n = roundHalfEven (x / u)"
  have "(0::rat) < 2 powi (- 1022)" by simp
  then have "0 < \<bar>x\<bar>" using lo by (rule less_le_trans)
  then have nz: "x \<noteq> 0" by simp
  from ilog2_bounds [OF nz]
  have elo: "2 powi e \<le> \<bar>x\<bar>" and ehi: "\<bar>x\<bar> < 2 powi (e + 1)" by (simp_all add: e_def)
  have e1: "- 1022 \<le> e"
  proof (rule ccontr)
    assume "\<not> - 1022 \<le> e"
    then have "e + 1 \<le> - 1022" by simp
    then have "(2::rat) powi (e + 1) \<le> 2 powi (- 1022)" by (intro power_int_increasing) simp_all
    with ehi lo show False by linarith
  qed
  have e2: "e \<le> 1022"
  proof (rule ccontr)
    assume "\<not> e \<le> 1022"
    then have "1023 \<le> e" by simp
    then have "(2::rat) powi 1023 \<le> 2 powi e" by (intro power_int_increasing) simp_all
    with elo hi show False by simp
  qed
  have upos: "0 < u" by (simp add: u_def)
  have u2: "u / 2 = 2 powi e / 2 ^ 53"
  proof -
    have "u = 2 powi e / 2 powi 52" unfolding u_def by (rule power_int_diff) simp
    then show ?thesis by simp
  qed
  have "\<bar>x / u - of_int n\<bar> \<le> 1 / 2" unfolding n_def by (rule roundHalfEven_error)
  then have "\<bar>x / u - of_int n\<bar> * u \<le> (1 / 2) * u" using upos by (simp only: mult_le_cancel_right_pos)
  moreover have "\<bar>x / u - of_int n\<bar> * u = \<bar>of_int n * u - x\<bar>"
  proof -
    have "\<bar>x / u - of_int n\<bar> * u = \<bar>(x / u - of_int n) * u\<bar>" using upos by (simp add: abs_mult)
    also have "(x / u - of_int n) * u = x - of_int n * u" using upos by (simp add: field_simps)
    finally show ?thesis by (simp add: abs_minus_commute)
  qed
  ultimately have err: "\<bar>of_int n * u - x\<bar> \<le> 2 powi e / 2 ^ 53" using u2 by simp
  also have "\<dots> \<le> \<bar>x\<bar> / 2 ^ 53" using elo by (simp add: divide_right_mono)
  finally have rel: "\<bar>of_int n * u - x\<bar> \<le> \<bar>x\<bar> / 2 ^ 53" .
  have "\<bar>of_int n * u\<bar> \<le> \<bar>x\<bar> + \<bar>x\<bar> / 2 ^ 53" using rel by linarith
  also have "\<dots> \<le> \<bar>x\<bar> + \<bar>x\<bar>" by (simp add: field_simps)
  also have "\<dots> < 2 ^ 1023 + 2 ^ 1023" using hi by linarith
  also have "\<dots> = (2::rat) ^ 1024" by simp
  finally have fin: "\<not> 2 ^ 1024 \<le> \<bar>of_int n * u\<bar>" by simp
  have mx: "max e (- 1022) = e" using e1 by simp
  have "rnd x = Fin (of_int n * u)"
    using nz fin by (simp add: rnd_def Let_def e_def [symmetric] mx u_def [symmetric] n_def [symmetric])
  with rel show ?thesis by blast
qed


lemma relative_bounds:
  assumes "0 < (A::rat)" and "\<bar>a - A\<bar> \<le> \<bar>A\<bar> / 2 ^ 53"
  shows "A * (1 - 1 / 2 ^ 53) \<le> a" and "a \<le> A * (1 + 1 / 2 ^ 53)"
proof -
  from assms have "\<bar>a - A\<bar> \<le> A / 2 ^ 53" by simp
  then have "a - A \<le> A / 2 ^ 53" and "A - a \<le> A / 2 ^ 53" by linarith+
  then show "A * (1 - 1 / 2 ^ 53) \<le> a" and "a \<le> A * (1 + 1 / 2 ^ 53)"
    by (simp_all add: algebra_simps)
qed

lemma tiny_le_normal: "(2::rat) powi (- 1022) \<le> 1 / 2 ^ 43"
proof -
  have "(2::rat) powi (- 1022) \<le> 2 powi (- 43)" by (intro power_int_increasing) simp_all
  then show ?thesis by (simp add: power_int_minus_divide)
qed

text \<open>
  The three roundings of the gas price, two quotients and a product, move the result by
  less than the distance of the exact value to the grid of multiples of \<open>1 / (1000 * cents)\<close>
  below it, and by less than one above it: the ceiling of the rounded product is the exact
  ceiling or one more.
\<close>

lemma gas_price_rounding:
  assumes gas: "1 \<le> gas" and h: "1 \<le> h" and c: "1 \<le> c" "c \<le> 2 ^ 31"
    and small: "gas * h < 2 ^ 51"
  shows "\<exists>p. Math_ceil (js_mul (js_div (toNumber gas) (Fin 1000)) (js_div (toNumber h) (toNumber c))) =
               Fin (of_int p)
           \<and> \<lceil>(rat_of_int gas / 1000) * (rat_of_int h / rat_of_int c)\<rceil> \<le> p
           \<and> p \<le> \<lceil>(rat_of_int gas / 1000) * (rat_of_int h / rat_of_int c)\<rceil> + 1"
proof -
  define A :: rat where "A = of_int gas / 1000"
  define R :: rat where "R = of_int h / of_int c"
  define X where "X = A * R"
  define L :: rat where "L = 1 - 1 / 2 ^ 53"
  define U :: rat where "U = 1 + 1 / 2 ^ 53"
  define E where "E = \<lceil>X\<rceil>"
  have Lpos: "0 < L" and Upos: "0 < U" by (simp_all add: L_def U_def)
  \<comment> \<open>sizes of the integers\<close>
  have gas_le: "gas < 2 ^ 51"
  proof -
    have "gas * 1 \<le> gas * h" using gas h by (intro mult_left_mono) simp_all
    with small show ?thesis by simp
  qed
  have h_le: "h < 2 ^ 51"
  proof -
    have "1 * h \<le> gas * h" using gas h by (intro mult_right_mono) simp_all
    with small show ?thesis by simp
  qed
  have tg: "toNumber gas = Fin (of_int gas)" using gas gas_le by (intro toNumber_exact) simp
  have th: "toNumber h = Fin (of_int h)" using h h_le by (intro toNumber_exact) simp
  have tc: "toNumber c = Fin (of_int c)" using c by (intro toNumber_exact) simp
  have cpos: "0 < rat_of_int c" using c by simp
  have c_le: "rat_of_int c \<le> 2 ^ 31"
  proof -
    have "rat_of_int c \<le> rat_of_int (2 ^ 31)" using c by (simp only: of_int_le_iff)
    then show ?thesis by simp
  qed
  have gas1: "1 \<le> rat_of_int gas" using gas by simp
  have h1: "1 \<le> rat_of_int h" using h by simp
  have gh: "rat_of_int gas * rat_of_int h < 2 ^ 51"
  proof -
    have "rat_of_int (gas * h) < rat_of_int (2 ^ 51)" using small by (simp only: of_int_less_iff)
    then show ?thesis by simp
  qed
  \<comment> \<open>the two quotients\<close>
  have A_lo: "1 / 1000 \<le> A" using gas1 by (simp add: A_def)
  have Apos: "0 < A" using A_lo by simp
  have R_lo: "1 / 2 ^ 31 \<le> R" unfolding R_def using h1 cpos c_le by (intro frac_le) simp_all
  have Rpos: "0 < R" using R_lo by (simp add: less_le_trans [OF _ R_lo])
  have Xpos: "0 < X" unfolding X_def using Apos Rpos by simp
  have X_eq: "X = rat_of_int gas * rat_of_int h / (1000 * rat_of_int c)"
    by (simp add: X_def A_def R_def)
  have X_hi: "X < 2 ^ 51"
  proof -
    have "1 \<le> 1000 * rat_of_int c" using c by simp
    then have "rat_of_int gas * rat_of_int h / (1000 * rat_of_int c) \<le>
               rat_of_int gas * rat_of_int h / 1"
      using gas1 h1 by (intro divide_left_mono) simp_all
    with gh show ?thesis by (simp add: X_eq)
  qed
  have A_hi: "A < 2 ^ 1023"
  proof -
    have "A \<le> rat_of_int gas" using gas1 by (simp add: A_def)
    also have "\<dots> < rat_of_int (2 ^ 51)" using gas_le by (simp only: of_int_less_iff)
    also have "\<dots> < 2 ^ 1023" by simp
    finally show ?thesis .
  qed
  have R_hi: "R < 2 ^ 1023"
  proof -
    have "R \<le> rat_of_int h / 1" unfolding R_def using h1 cpos c by (intro divide_left_mono) simp_all
    also have "\<dots> < rat_of_int (2 ^ 51)" using h_le by (simp only: div_by_1 of_int_less_iff)
    also have "\<dots> < 2 ^ 1023" by simp
    finally show ?thesis .
  qed
  have "2 powi (- 1022) \<le> \<bar>A\<bar>" using tiny_le_normal A_lo by simp
  moreover have "\<bar>A\<bar> < 2 ^ 1023" using A_hi Apos by simp
  ultimately obtain a where a: "rnd A = Fin a" "\<bar>a - A\<bar> \<le> \<bar>A\<bar> / 2 ^ 53"
    using rnd_relative_error by blast
  have "2 powi (- 1022) \<le> \<bar>R\<bar>" using tiny_le_normal R_lo by simp
  moreover have "\<bar>R\<bar> < 2 ^ 1023" using R_hi Rpos by simp
  ultimately obtain r where r: "rnd R = Fin r" "\<bar>r - R\<bar> \<le> \<bar>R\<bar> / 2 ^ 53"
    using rnd_relative_error by blast
  from relative_bounds [OF Apos a(2)] have a_lo: "A * L \<le> a" and a_hi: "a \<le> A * U"
    by (simp_all add: L_def U_def)
  from relative_bounds [OF Rpos r(2)] have r_lo: "R * L \<le> r" and r_hi: "r \<le> R * U"
    by (simp_all add: L_def U_def)
  have apos: "0 < a" using a_lo Apos Lpos by (meson less_le_trans mult_pos_pos)
  have rpos: "0 < r" using r_lo Rpos Lpos by (meson less_le_trans mult_pos_pos)
  \<comment> \<open>the product\<close>
  have ar_hi: "a * r \<le> X * (U * U)"
  proof -
    have "a * r \<le> (A * U) * (R * U)"
      using a_hi r_hi apos rpos Apos Upos by (intro mult_mono) simp_all
    then show ?thesis by (simp add: X_def algebra_simps)
  qed
  have ar_lo: "X * (L * L) \<le> a * r"
  proof -
    have "(A * L) * (R * L) \<le> a * r"
      using a_lo r_lo apos Rpos Lpos by (intro mult_mono) simp_all
    then show ?thesis by (simp add: X_def algebra_simps)
  qed
  have arpos: "0 < a * r" using apos rpos by simp
  have X_lo: "1 / 2 ^ 41 \<le> X"
  proof -
    have "(1 / 1000) * (1 / 2 ^ 31) \<le> A * R"
      using A_lo R_lo by (intro mult_mono) simp_all
    then show ?thesis by (simp add: X_def)
  qed
  have "1 / 2 ^ 43 \<le> X * (L * L)"
  proof -
    have "(1 / 2 ^ 41) * (1 / 4) \<le> X * (L * L)"
      using X_lo by (intro mult_mono) (simp_all add: L_def)
    then show ?thesis by simp
  qed
  with ar_lo tiny_le_normal arpos have "2 powi (- 1022) \<le> \<bar>a * r\<bar>" by simp
  moreover have "\<bar>a * r\<bar> < 2 ^ 1023"
  proof -
    have "X * (U * U) \<le> 2 ^ 51 * 4"
      using X_hi Xpos by (intro mult_mono) (simp_all add: U_def)
    also have "\<dots> < (2::rat) ^ 1023" by simp
    finally show ?thesis using ar_hi arpos by simp
  qed
  ultimately obtain q where q: "rnd (a * r) = Fin q" "\<bar>q - a * r\<bar> \<le> \<bar>a * r\<bar> / 2 ^ 53"
    using rnd_relative_error by blast
  from relative_bounds [OF arpos q(2)] have q_lo: "a * r * L \<le> q" and q_hi: "q \<le> a * r * U"
    by (simp_all add: L_def U_def)
  have q_lo': "X * (L * L * L) \<le> q"
  proof -
    have "X * (L * L) * L \<le> a * r * L" using ar_lo Lpos by (intro mult_right_mono) simp_all
    with q_lo show ?thesis by (simp add: mult.assoc)
  qed
  have q_hi': "q \<le> X * (U * U * U)"
  proof -
    have "a * r * U \<le> X * (U * U) * U" using ar_hi Upos by (intro mult_right_mono) simp_all
    with q_hi show ?thesis by (simp add: mult.assoc)
  qed
  \<comment> \<open>the value\<close>
  have res: "Math_ceil (js_mul (js_div (toNumber gas) (Fin 1000)) (js_div (toNumber h) (toNumber c))) =
      Fin (of_int \<lceil>q\<rceil>)"
    using cpos a(1) r(1) q(1) by (simp add: tg th tc A_def [symmetric] R_def [symmetric])
  \<comment> \<open>not below the exact ceiling\<close>
  have "1 - L * L * L \<le> 4 / 2 ^ 53" by (simp add: L_def)
  then have "X * (1 - L * L * L) \<le> X * (4 / 2 ^ 53)" using Xpos by (intro mult_left_mono) simp_all
  moreover have "X * (4 / 2 ^ 53) < 1 / (1000 * rat_of_int c)"
  proof -
    have "X * (4 / 2 ^ 53) = (rat_of_int gas * rat_of_int h / 2 ^ 51) / (1000 * rat_of_int c)"
      by (simp add: X_eq)
    also have "\<dots> < 1 / (1000 * rat_of_int c)"
      using gh cpos by (intro divide_strict_right_mono) simp_all
    finally show ?thesis .
  qed
  ultimately have "X - 1 / (1000 * rat_of_int c) < X * (L * L * L)"
    by (simp add: algebra_simps)
  with q_lo' have below: "X - 1 / (1000 * rat_of_int c) < q" by simp
  have grid: "rat_of_int (E - 1) + 1 / (1000 * rat_of_int c) \<le> X"
  proof -
    have "rat_of_int (E - 1) < X" unfolding E_def using ceiling_correct [of X] by simp
    then have "rat_of_int (E - 1) * (1000 * rat_of_int c) < rat_of_int gas * rat_of_int h"
      using cpos by (simp add: X_eq pos_less_divide_eq)
    then have "rat_of_int ((E - 1) * (1000 * c)) < rat_of_int (gas * h)" by simp
    then have "(E - 1) * (1000 * c) < gas * h" by (simp only: of_int_less_iff)
    then have "(E - 1) * (1000 * c) + 1 \<le> gas * h" by simp
    then have "rat_of_int ((E - 1) * (1000 * c) + 1) \<le> rat_of_int (gas * h)"
      by (simp only: of_int_le_iff)
    then have "rat_of_int (E - 1) * (1000 * rat_of_int c) + 1 \<le> rat_of_int gas * rat_of_int h"
      by simp
    then have "(rat_of_int (E - 1) * (1000 * rat_of_int c) + 1) / (1000 * rat_of_int c) \<le> X"
      using cpos by (simp add: X_eq divide_right_mono)
    then show ?thesis using cpos by (simp add: add_divide_distrib)
  qed
  from below grid have "rat_of_int (E - 1) < q" by linarith
  then have "E - 1 < \<lceil>q\<rceil>" by (simp only: less_ceiling_iff)
  then have lower: "E \<le> \<lceil>q\<rceil>" by simp
  \<comment> \<open>at most one above it\<close>
  have "U * U * U - 1 \<le> 1 / 2 ^ 51" by (simp add: U_def)
  then have "X * (U * U * U - 1) \<le> X * (1 / 2 ^ 51)" using Xpos by (intro mult_left_mono) simp_all
  also have "\<dots> < 1" using X_hi by simp
  finally have "X * (U * U * U) < X + 1" by (simp add: algebra_simps)
  with q_hi' have "q < X + 1" by simp
  moreover have "X \<le> rat_of_int E" unfolding E_def by simp
  ultimately have "q \<le> rat_of_int (E + 1)" by simp
  then have upper: "\<lceil>q\<rceil> \<le> E + 1" by (simp only: ceiling_le_iff)
  from res lower upper show ?thesis
    unfolding E_def X_def A_def R_def by blast
qed

section \<open>The gas price at two inputs\<close>

text \<open>
  The quotient \<open>1 / 12\<close> is not a binary64 value: it is rounded, and so is its product
  with 853. The ceiling of the result is 72.
\<close>

lemma rnd_1_12: "rnd (1 / 12) = Fin (6004799503160661 / 72057594037927936)"
  using rnd_eqI [of "- 4" "1 / 12" 6004799503160661] by simp

lemma rnd_853_times:
  "rnd (853 * (6004799503160661 / 72057594037927936)) = Fin (5002044898628949 / 70368744177664)"
  using rnd_eqI [of 6 "853 * (6004799503160661 / 72057594037927936)" 5002044898628949] by simp

lemma rnd_853: "rnd 853 = Fin 853"
  using rnd_of_int [of 853] by simp

lemma gas_price_value_853000_1_12:
  "Math_ceil (js_mul (js_div (toNumber 853000) (Fin 1000)) (js_div (toNumber 1) (toNumber 12))) =
     Fin 72"
proof -
  have a: "js_div (toNumber 853000) (Fin 1000) = Fin 853"
    by (simp add: toNumber_exact rnd_853)
  have r: "js_div (toNumber 1) (toNumber 12) = Fin (6004799503160661 / 72057594037927936)"
    by (simp add: toNumber_exact rnd_1_12)
  have "js_mul (Fin 853) (Fin (6004799503160661 / 72057594037927936)) =
          rnd (853 * (6004799503160661 / 72057594037927936))"
    by (simp only: js_mul.simps)
  then have p: "js_mul (Fin 853) (Fin (6004799503160661 / 72057594037927936)) =
          Fin (5002044898628949 / 70368744177664)"
    by (simp only: rnd_853_times)
  have "\<lceil>5002044898628949 / (70368744177664 :: rat)\<rceil> = 72"
    by (simp add: ceiling_unique)
  then show ?thesis
    by (simp only: a r p Math_ceil.simps) simp
qed

text \<open>
  The quotient \<open>7 / 25\<close> is rounded up to the next binary64 value, and its product with
  850 is rounded to a value just above 238: the ceiling is 239.
\<close>

lemma rnd_7_25: "rnd (7 / 25) = Fin (1261007895663739 / 4503599627370496)"
  using rnd_eqI [of "- 2" "7 / 25" 5044031582654956] by simp

lemma rnd_850_times:
  "rnd (850 * (1261007895663739 / 4503599627370496)) = Fin (8373880557142017 / 35184372088832)"
  using rnd_eqI [of 7 "850 * (1261007895663739 / 4503599627370496)" 8373880557142017] by simp

lemma rnd_850: "rnd 850 = Fin 850"
  using rnd_of_int [of 850] by simp

lemma gas_price_value_850000_7_25:
  "Math_ceil (js_mul (js_div (toNumber 850000) (Fin 1000)) (js_div (toNumber 7) (toNumber 25))) =
     Fin 239"
proof -
  have a: "js_div (toNumber 850000) (Fin 1000) = Fin 850"
    by (simp add: toNumber_exact rnd_850)
  have r: "js_div (toNumber 7) (toNumber 25) = Fin (1261007895663739 / 4503599627370496)"
    by (simp add: toNumber_exact rnd_7_25)
  have "js_mul (Fin 850) (Fin (1261007895663739 / 4503599627370496)) =
          rnd (850 * (1261007895663739 / 4503599627370496))"
    by (simp only: js_mul.simps)
  then have p: "js_mul (Fin 850) (Fin (1261007895663739 / 4503599627370496)) =
          Fin (8373880557142017 / 35184372088832)"
    by (simp only: rnd_850_times)
  have "\<lceil>8373880557142017 / (35184372088832 :: rat)\<rceil> = 239"
    by (simp add: ceiling_unique)
  then show ?thesis
    by (simp only: a r p Math_ceil.simps) simp
qed

lemma currentRate_exampleRates: "currentRate (exampleRates h c) = \<lparr>hbars = h, cents = c\<rparr>"
  by (simp add: exampleRates_def)

lemma convertGasPriceToTinyBars_defined:
  "contractTransactionGas fc = Some gas \<Longrightarrow>
   convertGasPriceToTinyBars k (Some fc) exchangeRates =
     Math_ceil
       (js_mul (js_div (toNumber gas) (Fin 1000))
          (js_div (toNumber (hbars (currentRate exchangeRates)))
             (toNumber (cents (currentRate exchangeRates)))))"
  by (simp add: convertGasPriceToTinyBars_def)

lemma convertGasPriceToTinyBars_850000_7_25:
  "convertGasPriceToTinyBars k (Some \<lparr>contractTransactionGas = Some 850000\<rparr>) (exampleRates 7 25) =
     Fin 239"
  by (simp add: convertGasPriceToTinyBars_defined currentRate_exampleRates
      gas_price_value_850000_7_25)

lemma convertGasPriceToTinyBars_853000_1_12:
  "convertGasPriceToTinyBars k (Some \<lparr>contractTransactionGas = Some 853000\<rparr>) (exampleRates 1 12) =
     Fin 72"
  by (simp add: convertGasPriceToTinyBars_defined currentRate_exampleRates
      gas_price_value_853000_1_12)

lemma convertGasPriceToTinyBars_default:
  "servicedata feeData = None \<or>
   (\<exists>fc. servicedata feeData = Some fc \<and> contractTransactionGas fc = None) \<Longrightarrow>
   convertGasPriceToTinyBars k (servicedata feeData) exchangeRates = DEFAULT_TINY_BAR_GAS k"
  by (auto simp: convertGasPriceToTinyBars_def)

section \<open>The loop over the fee schedule\<close>

lemma feeScheduleLoop_not_found:
  "find (isEthSchedule k) schedules = None \<Longrightarrow>
   feeScheduleLoop k sdk client schedules this =
     (Inl (Error (String_of_int (ETH_FUNCTIONALITY_CODE k) @ '' code not found in feeSchedule'')),
      this)"
  by (induction schedules) (auto split: if_splits)

lemma feeScheduleLoop_found:
  "find (isEthSchedule k) schedules = Some schedule \<Longrightarrow>
   fees schedule = Some (feeData # rest) \<Longrightarrow>
   getExchangeRate k sdk client this = (Inr exchangeRates, this') \<Longrightarrow>
   feeScheduleLoop k sdk client schedules this =
     (Inr (convertGasPriceToTinyBars k (servicedata feeData) exchangeRates), this')"
  by (induction schedules) (auto split: if_splits)

text \<open>The example client serves both files, whatever the state of the metrics.\<close>

lemma getFeeSchedule_fileClient:
  "getFeeSchedule exampleConstants fileSdk (fileClient feeSchedules exchangeRates) this =
     (Inr feeSchedules,
      snd (getFeeSchedule exampleConstants fileSdk (fileClient feeSchedules exchangeRates) this))"
proof -
  have "fst (getFeeSchedule exampleConstants fileSdk (fileClient feeSchedules exchangeRates) this) =
          Inr feeSchedules"
    by (simp add: getFeeSchedule_def getFileIdBytes_def executeQuery_def fileClient_def
        fileSdk_def exampleConstants_def Let_def)
  then show ?thesis by (simp add: prod_eq_iff)
qed

lemma getExchangeRate_fileClient:
  "getExchangeRate exampleConstants fileSdk (fileClient feeSchedules exchangeRates) this =
     (Inr exchangeRates,
      snd (getExchangeRate exampleConstants fileSdk (fileClient feeSchedules exchangeRates) this))"
proof -
  have "fst (getExchangeRate exampleConstants fileSdk (fileClient feeSchedules exchangeRates) this) =
          Inr exchangeRates"
    by (simp add: getExchangeRate_def getFileIdBytes_def executeQuery_def fileClient_def
        fileSdk_def exampleConstants_def Let_def)
  then show ?thesis by (simp add: prod_eq_iff)
qed

section \<open>The gas price from the fee schedule\<close>

text \<open>
  Claim C1, as amended. For every fetched fee schedule, \<open>getTinyBarGasFee\<close> fails with
  the error \<open>Invalid FeeSchedules proto format\<close> when the schedule has no \<open>current\<close>
  section or that section has no table, and with the error \<open>code not found in feeSchedule\<close>
  when no entry of the table has the contract-call code together with a list of fee data.
  When there is such an entry, its list of fee data is not empty and the exchange rate is
  fetched, the result is the converted gas price of the first fee data of the first such
  entry; when that fee data has no service components, or these have no
  \<open>contractTransactionGas\<close>, the result is the constant \<open>DEFAULT_TINY_BAR_GAS\<close> and
  no error is raised.
\<close>

theorem getTinyBarGasFee_outcomes:
  assumes "getFeeSchedule k sdk client this = (Inr feeSchedules, this1)"
  shows "(current feeSchedules = None
          \<or> (\<exists>cur. current feeSchedules = Some cur \<and> transactionFeeSchedule cur = None)
        \<longrightarrow> getTinyBarGasFee k sdk client this =
              (Inl (Error ''Invalid FeeSchedules proto format''), this1))
   \<and> (current feeSchedules = Some cur \<and> transactionFeeSchedule cur = Some schedules
        \<and> find (isEthSchedule k) schedules = None
        \<longrightarrow> getTinyBarGasFee k sdk client this =
              (Inl (Error (String_of_int (ETH_FUNCTIONALITY_CODE k) @
                           '' code not found in feeSchedule'')), this1))
   \<and> (current feeSchedules = Some cur \<and> transactionFeeSchedule cur = Some schedules
        \<and> find (isEthSchedule k) schedules = Some schedule
        \<and> fees schedule = Some (feeData # rest)
        \<and> getExchangeRate k sdk client this1 = (Inr exchangeRates, this2)
        \<longrightarrow> getTinyBarGasFee k sdk client this =
              (Inr (convertGasPriceToTinyBars k (servicedata feeData) exchangeRates), this2)
            \<and> (servicedata feeData = None
                 \<or> (\<exists>fc. servicedata feeData = Some fc \<and> contractTransactionGas fc = None)
               \<longrightarrow> getTinyBarGasFee k sdk client this = (Inr (DEFAULT_TINY_BAR_GAS k), this2)))"
proof (intro conjI impI)
  assume "current feeSchedules = None
          \<or> (\<exists>cur. current feeSchedules = Some cur \<and> transactionFeeSchedule cur = None)"
  with assms show "getTinyBarGasFee k sdk client this =
      (Inl (Error ''Invalid FeeSchedules proto format''), this1)"
    by (auto simp: getTinyBarGasFee_def)
next
  assume "current feeSchedules = Some cur \<and> transactionFeeSchedule cur = Some schedules
        \<and> find (isEthSchedule k) schedules = None"
  with assms show "getTinyBarGasFee k sdk client this =
      (Inl (Error (String_of_int (ETH_FUNCTIONALITY_CODE k) @
                   '' code not found in feeSchedule'')), this1)"
    by (simp add: getTinyBarGasFee_def feeScheduleLoop_not_found)
next
  assume a: "current feeSchedules = Some cur \<and> transactionFeeSchedule cur = Some schedules
        \<and> find (isEthSchedule k) schedules = Some schedule
        \<and> fees schedule = Some (feeData # rest)
        \<and> getExchangeRate k sdk client this1 = (Inr exchangeRates, this2)"
  with assms show r: "getTinyBarGasFee k sdk client this =
      (Inr (convertGasPriceToTinyBars k (servicedata feeData) exchangeRates), this2)"
    by (simp add: getTinyBarGasFee_def feeScheduleLoop_found)
  assume "servicedata feeData = None
          \<or> (\<exists>fc. servicedata feeData = Some fc \<and> contractTransactionGas fc = None)"
  then show "getTinyBarGasFee k sdk client this = (Inr (DEFAULT_TINY_BAR_GAS k), this2)"
    unfolding r by (simp only: convertGasPriceToTinyBars_default)
qed

text \<open>
  The three outcomes on the example client: a schedule with no \<open>current\<close> section, a
  table with no entry for the code 84, and a table whose entry for the code 84 has a gas
  component of 850000 at the rate of 7 hbars for 25 cents.
\<close>

theorem getTinyBarGasFee_outcomes_witness:
  "fst (getFeeSchedule exampleConstants fileSdk
          (fileClient \<lparr>current = None\<rparr> (exampleRates 7 25)) freshClient) =
     Inr \<lparr>current = None\<rparr>
   \<and> fst (getTinyBarGasFee exampleConstants fileSdk
            (fileClient \<lparr>current = None\<rparr> (exampleRates 7 25)) freshClient) =
       Inl (Error ''Invalid FeeSchedules proto format'')
   \<and> find (isEthSchedule exampleConstants) [cryptoTransferEntry] = None
   \<and> fst (getTinyBarGasFee exampleConstants fileSdk
            (fileClient (scheduleOf [cryptoTransferEntry]) (exampleRates 7 25)) freshClient) =
       Inl (Error ''84 code not found in feeSchedule'')
   \<and> find (isEthSchedule exampleConstants)
        [cryptoTransferEntry, ethEntry (Some \<lparr>contractTransactionGas = Some 850000\<rparr>)] =
       Some (ethEntry (Some \<lparr>contractTransactionGas = Some 850000\<rparr>))
   \<and> fst (getTinyBarGasFee exampleConstants fileSdk
            (fileClient
               (scheduleOf
                  [cryptoTransferEntry, ethEntry (Some \<lparr>contractTransactionGas = Some 850000\<rparr>)])
               (exampleRates 7 25)) freshClient) =
       Inr (Fin 239)"
proof -
  let ?rates = "exampleRates 7 25"
  let ?eth = "ethEntry (Some \<lparr>contractTransactionGas = Some 850000\<rparr>)"
  let ?c1 = "fileClient \<lparr>current = None\<rparr> ?rates"
  let ?c2 = "fileClient (scheduleOf [cryptoTransferEntry]) ?rates"
  let ?c3 = "fileClient (scheduleOf [cryptoTransferEntry, ?eth]) ?rates"
  let ?s3 = "snd (getFeeSchedule exampleConstants fileSdk ?c3 freshClient)"
  have f1: "fst (getFeeSchedule exampleConstants fileSdk ?c1 freshClient) = Inr \<lparr>current = None\<rparr>"
    using getFeeSchedule_fileClient [of "\<lparr>current = None\<rparr>" ?rates freshClient]
    by (metis fst_conv)
  have n2: "find (isEthSchedule exampleConstants) [cryptoTransferEntry] = None"
    by (simp add: isEthSchedule_def cryptoTransferEntry_def exampleConstants_def)
  have n3: "find (isEthSchedule exampleConstants) [cryptoTransferEntry, ?eth] = Some ?eth"
    by (simp add: isEthSchedule_def cryptoTransferEntry_def ethEntry_def exampleConstants_def)
  have g1: "fst (getTinyBarGasFee exampleConstants fileSdk ?c1 freshClient) =
      Inl (Error ''Invalid FeeSchedules proto format'')"
    using getTinyBarGasFee_outcomes
        [where k = exampleConstants and sdk = fileSdk and client = ?c1 and this = freshClient
          and feeSchedules = "\<lparr>current = None\<rparr>"
          and ?this1.0 = "snd (getFeeSchedule exampleConstants fileSdk ?c1 freshClient)",
          OF getFeeSchedule_fileClient]
    by simp
  have g2: "fst (getTinyBarGasFee exampleConstants fileSdk ?c2 freshClient) =
      Inl (Error ''84 code not found in feeSchedule'')"
    using getTinyBarGasFee_outcomes
        [where k = exampleConstants and sdk = fileSdk and client = ?c2 and this = freshClient
          and feeSchedules = "scheduleOf [cryptoTransferEntry]"
          and ?this1.0 = "snd (getFeeSchedule exampleConstants fileSdk ?c2 freshClient)"
          and cur = "\<lparr>transactionFeeSchedule = Some [cryptoTransferEntry]\<rparr>"
          and schedules = "[cryptoTransferEntry]",
          OF getFeeSchedule_fileClient] n2
    by (simp add: scheduleOf_def exampleConstants_def String_of_int_def)
  have g3: "fst (getTinyBarGasFee exampleConstants fileSdk ?c3 freshClient) = Inr (Fin 239)"
    using getTinyBarGasFee_outcomes
        [where k = exampleConstants and sdk = fileSdk and client = ?c3 and this = freshClient
          and feeSchedules = "scheduleOf [cryptoTransferEntry, ?eth]"
          and ?this1.0 = ?s3
          and cur = "\<lparr>transactionFeeSchedule = Some [cryptoTransferEntry, ?eth]\<rparr>"
          and schedules = "[cryptoTransferEntry, ?eth]"
          and schedule = ?eth
          and feeData = "\<lparr>servicedata = Some \<lparr>contractTransactionGas = Some 850000\<rparr>\<rparr>"
          and rest = "[]"
          and exchangeRates = ?rates
          and ?this2.0 = "snd (getExchangeRate exampleConstants fileSdk ?c3 ?s3)",
          OF getFeeSchedule_fileClient]
      n3 getExchangeRate_fileClient [of "scheduleOf [cryptoTransferEntry, ?eth]" ?rates ?s3]
    by (simp add: scheduleOf_def ethEntry_def convertGasPriceToTinyBars_850000_7_25)
  from f1 g1 n2 g2 n3 g3 show ?thesis by (intro conjI)
qed

text \<open>
  The claim as first stated, that the operation fails whenever the fee-component data of
  the contract-call entry is absent and never falls back on a made-up fee, does not hold:
  with an entry for the code 84 whose fee data has no service components, the result is
  the constant \<open>DEFAULT_TINY_BAR_GAS\<close>.
\<close>

theorem getTinyBarGasFee_default_counterexample:
  "fst (getTinyBarGasFee exampleConstants fileSdk
          (fileClient (scheduleOf [cryptoTransferEntry, ethEntry None]) (exampleRates 1 12))
          freshClient) =
     Inr (DEFAULT_TINY_BAR_GAS exampleConstants)
   \<and> fst (getTinyBarGasFee exampleConstants fileSdk
          (fileClient (scheduleOf [cryptoTransferEntry, ethEntry None]) (exampleRates 1 12))
          freshClient) \<noteq>
     Inl (Error ''84 code not found in feeSchedule'')"
  by (simp add: getTinyBarGasFee_def getFeeSchedule_def getExchangeRate_def
      getFileIdBytes_def executeQuery_def fileClient_def fileSdk_def Let_def scheduleOf_def
      isEthSchedule_def cryptoTransferEntry_def ethEntry_def exampleConstants_def
      convertGasPriceToTinyBars_def)

text \<open>
  Claim C2, as amended. For every fee-component entry with a defined
  \<open>contractTransactionGas\<close> and every exchange rate, the gas price returned is the
  ceiling of \<open>(gas / 1000) * (hbars / cents)\<close> evaluated in binary64 arithmetic: the gas is
  converted to a number, each of the two quotients is rounded to the nearest number
  and so is their product. It is never the default constant. When the gas, the hbars and
  the cents are at least 1, the cents at most \<open>2 ^ 31\<close> and the product of the gas and the
  hbars is below \<open>2 ^ 51\<close>, the result is the ceiling of the exact value or that ceiling
  plus one, never less. For a gas component of 853000 and the rate of 1 hbar for 12 cents
  the result is 72. The result is a function of the fee components and of the current
  rate only.
\<close>

theorem gas_price_in_binary64:
  "(contractTransactionGas fc = Some gas \<longrightarrow>
      convertGasPriceToTinyBars k (Some fc) exchangeRates =
        Math_ceil
          (js_mul (js_div (toNumber gas) (Fin 1000))
             (js_div (toNumber (hbars (currentRate exchangeRates)))
                (toNumber (cents (currentRate exchangeRates))))))
   \<and> (contractTransactionGas fc = Some gas \<and> 1 \<le> gas
        \<and> 1 \<le> hbars (currentRate exchangeRates)
        \<and> 1 \<le> cents (currentRate exchangeRates) \<and> cents (currentRate exchangeRates) \<le> 2 ^ 31
        \<and> gas * hbars (currentRate exchangeRates) < 2 ^ 51 \<longrightarrow>
        (\<exists>p. convertGasPriceToTinyBars k (Some fc) exchangeRates = Fin (of_int p)
             \<and> spec_gasPrice gas (currentRate exchangeRates) \<le> p
             \<and> p \<le> spec_gasPrice gas (currentRate exchangeRates) + 1))
   \<and> convertGasPriceToTinyBars k (Some \<lparr>contractTransactionGas = Some 853000\<rparr>)
        (exampleRates 1 12) = Fin 72
   \<and> (currentRate exchangeRates = currentRate exchangeRates' \<longrightarrow>
        convertGasPriceToTinyBars k components exchangeRates =
        convertGasPriceToTinyBars k components exchangeRates')"
proof (intro conjI impI)
  assume "contractTransactionGas fc = Some gas"
  then show "convertGasPriceToTinyBars k (Some fc) exchangeRates =
      Math_ceil
        (js_mul (js_div (toNumber gas) (Fin 1000))
           (js_div (toNumber (hbars (currentRate exchangeRates)))
              (toNumber (cents (currentRate exchangeRates)))))"
    by (rule convertGasPriceToTinyBars_defined)
next
  assume a: "contractTransactionGas fc = Some gas \<and> 1 \<le> gas
        \<and> 1 \<le> hbars (currentRate exchangeRates)
        \<and> 1 \<le> cents (currentRate exchangeRates) \<and> cents (currentRate exchangeRates) \<le> 2 ^ 31
        \<and> gas * hbars (currentRate exchangeRates) < 2 ^ 51"
  then have "convertGasPriceToTinyBars k (Some fc) exchangeRates =
      Math_ceil
        (js_mul (js_div (toNumber gas) (Fin 1000))
           (js_div (toNumber (hbars (currentRate exchangeRates)))
              (toNumber (cents (currentRate exchangeRates)))))"
    by (simp add: convertGasPriceToTinyBars_defined)
  moreover from a have "\<exists>p. Math_ceil
        (js_mul (js_div (toNumber gas) (Fin 1000))
           (js_div (toNumber (hbars (currentRate exchangeRates)))
              (toNumber (cents (currentRate exchangeRates))))) = Fin (of_int p)
      \<and> \<lceil>(rat_of_int gas / 1000) *
           (rat_of_int (hbars (currentRate exchangeRates)) /
            rat_of_int (cents (currentRate exchangeRates)))\<rceil> \<le> p
      \<and> p \<le> \<lceil>(rat_of_int gas / 1000) *
           (rat_of_int (hbars (currentRate exchangeRates)) /
            rat_of_int (cents (currentRate exchangeRates)))\<rceil> + 1"
    by (intro gas_price_rounding) simp_all
  ultimately show "\<exists>p. convertGasPriceToTinyBars k (Some fc) exchangeRates = Fin (of_int p)
      \<and> spec_gasPrice gas (currentRate exchangeRates) \<le> p
      \<and> p \<le> spec_gasPrice gas (currentRate exchangeRates) + 1"
    by (simp add: spec_gasPrice_def)
next
  show "convertGasPriceToTinyBars k (Some \<lparr>contractTransactionGas = Some 853000\<rparr>)
      (exampleRates 1 12) = Fin 72"
    by (rule convertGasPriceToTinyBars_853000_1_12)
next
  assume "currentRate exchangeRates = currentRate exchangeRates'"
  then show "convertGasPriceToTinyBars k components exchangeRates =
      convertGasPriceToTinyBars k components exchangeRates'"
    by (auto simp: convertGasPriceToTinyBars_def split: option.splits)
qed

theorem gas_price_in_binary64_witness:
  "contractTransactionGas \<lparr>contractTransactionGas = Some 853000\<rparr> = Some 853000
   \<and> (1::int) \<le> 853000 \<and> (1::int) \<le> 1 \<and> (1::int) \<le> 12 \<and> (12::int) \<le> 2 ^ 31
   \<and> (853000::int) * 1 < 2 ^ 51
   \<and> spec_gasPrice 853000 \<lparr>hbars = 1, cents = 12\<rparr> = 72
   \<and> convertGasPriceToTinyBars exampleConstants (Some \<lparr>contractTransactionGas = Some 853000\<rparr>)
       \<lparr>currentRate = \<lparr>hbars = 1, cents = 12\<rparr>, nextRate = \<lparr>hbars = 1, cents = 15\<rparr>\<rparr> =
     Math_ceil (js_mul (js_div (toNumber 853000) (Fin 1000)) (js_div (toNumber 1) (toNumber 12)))
   \<and> convertGasPriceToTinyBars exampleConstants (Some \<lparr>contractTransactionGas = Some 853000\<rparr>)
       \<lparr>currentRate = \<lparr>hbars = 1, cents = 12\<rparr>, nextRate = \<lparr>hbars = 1, cents = 15\<rparr>\<rparr> = Fin 72"
proof -
  have s: "spec_gasPrice 853000 \<lparr>hbars = 1, cents = 12\<rparr> = 72"
    by (simp add: spec_gasPrice_def ceiling_unique)
  show ?thesis
    using gas_price_in_binary64 [where fc = "\<lparr>contractTransactionGas = Some 853000\<rparr>"
        and gas = 853000 and k = exampleConstants
        and exchangeRates = "\<lparr>currentRate = \<lparr>hbars = 1, cents = 12\<rparr>,
                               nextRate = \<lparr>hbars = 1, cents = 15\<rparr>\<rparr>"
        and exchangeRates' = "exampleRates 1 12"
        and components = "Some \<lparr>contractTransactionGas = Some 853000\<rparr>"]
    by (simp add: s currentRate_exampleRates gas_price_value_853000_1_12)
qed

text \<open>
  The claim as first stated, read in exact arithmetic, does not hold: for a gas component
  of 850000 and the rate of 7 hbars for 25 cents the exact product is 238, and the gas
  price returned is 239.
\<close>

theorem gas_price_exact_formula_counterexample:
  "convertGasPriceToTinyBars exampleConstants (Some \<lparr>contractTransactionGas = Some 850000\<rparr>)
     (exampleRates 7 25) = Fin 239
   \<and> spec_gasPrice 850000 (currentRate (exampleRates 7 25)) = 238
   \<and> convertGasPriceToTinyBars exampleConstants (Some \<lparr>contractTransactionGas = Some 850000\<rparr>)
       (exampleRates 7 25) \<noteq>
     Fin (of_int (spec_gasPrice 850000 (currentRate (exampleRates 7 25))))"
  by (simp add: convertGasPriceToTinyBars_850000_7_25 spec_gasPrice_def currentRate_exampleRates)

section \<open>Metrics and errors of the executor\<close>

text \<open>
  Claim C3, as amended. For every query run by \<open>executeQuery\<close> that fails with a
  failure carrying a native status, one observation is recorded in \<open>QUERY\<close> mode under
  the name of the query, with that status, and with the cost equal to the payment that
  the query holds after the attempt, in tinybars, or 0 when the query holds no payment.
\<close>

theorem executeQuery_failure_observation:
  assumes "query_execute client query = (Inl e, query')" and "status_of e = Some st"
  shows "consensusNodeClientHistorgram (snd (executeQuery query client this)) =
     consensusNodeClientHistorgram this @
       [\<lparr>obsMode = queryMode, obsType = constructorName query, obsStatus = Some st,
         obsCost = (case queryPayment query' of None \<Rightarrow> Fin 0 | Some p \<Rightarrow> toNumber p)\<rparr>]"
  using assms by (simp only: histogram_executeQuery_failure)

theorem executeQuery_failure_observation_witness:
  "query_execute (failingClient insufficientPayerBalanceFailure) freeQuery =
     (Inl insufficientPayerBalanceFailure, freeQuery)
   \<and> status_of insufficientPayerBalanceFailure = Some Status_InsufficientPayerBalance
   \<and> consensusNodeClientHistorgram
        (snd (executeQuery freeQuery (failingClient insufficientPayerBalanceFailure) freshClient)) =
      [\<lparr>obsMode = ''QUERY'', obsType = ''FileContentsQuery'',
        obsStatus = Some Status_InsufficientPayerBalance, obsCost = Fin 0\<rparr>]"
  using executeQuery_failure_observation [of "failingClient insufficientPayerBalanceFailure"
      freeQuery insufficientPayerBalanceFailure freeQuery Status_InsufficientPayerBalance freshClient]
  by (simp add: failingClient_def insufficientPayerBalanceFailure_def freeQuery_def
      freshClient_def queryMode_def)

text \<open>
  The claim as first stated, that the cost recorded for a failed query is 0, does not
  hold: a query that holds a payment of 5 tinybars and is rejected with the status
  \<open>INSUFFICIENT_PAYER_BALANCE\<close> is recorded with the cost 5.
\<close>

theorem executeQuery_failure_cost_counterexample:
  "consensusNodeClientHistorgram
     (snd (executeQuery paidQuery (failingClient insufficientPayerBalanceFailure) freshClient)) =
     [\<lparr>obsMode = ''QUERY'', obsType = ''ContractCallQuery'',
       obsStatus = Some Status_InsufficientPayerBalance, obsCost = Fin 5\<rparr>]
   \<and> obsCost (last (consensusNodeClientHistorgram
         (snd (executeQuery paidQuery (failingClient insufficientPayerBalanceFailure) freshClient)))) \<noteq>
     Fin 0"
proof -
  have "query_execute (failingClient insufficientPayerBalanceFailure) paidQuery =
          (Inl insufficientPayerBalanceFailure, paidQuery)"
    by (simp add: failingClient_def)
  from histogram_executeQuery_failure [OF this, of freshClient]
  show ?thesis
    by (simp add: insufficientPayerBalanceFailure_def paidQuery_def freshClient_def
        queryMode_def toNumber_exact)
qed

text \<open>
  Claim C4, as amended. Every query run by \<open>executeQuery\<close>, failed or not, records one
  observation. \<open>executeTransaction\<close> records none, whether the submission succeeds or
  fails. \<open>executeGetTransactionRecord\<close> records one observation in \<open>TRANSACTION\<close> mode
  when the record is retrieved, and one when the retrieval fails with a status whose code
  is not 0: a retrieval that fails with the status \<open>INSUFFICIENT_PAYER_BALANCE\<close> records
  one observation with that status and the cost 0, and raises an error that carries the
  native message. A retrieval that fails otherwise records nothing.
\<close>

theorem one_observation_per_metered_outcome:
  "length (consensusNodeClientHistorgram (snd (executeQuery query client this))) =
     length (consensusNodeClientHistorgram this) + 1
   \<and> consensusNodeClientHistorgram (snd (executeTransaction transaction client this)) =
       consensusNodeClientHistorgram this
   \<and> (getRecord resp = Some (Inr transactionRecord) \<longrightarrow>
        consensusNodeClientHistorgram (snd (executeGetTransactionRecord sdk resp transactionName this)) =
          consensusNodeClientHistorgram this @
            [\<lparr>obsMode = transactionMode, obsType = transactionName,
              obsStatus = Some (status (receipt transactionRecord)),
              obsCost = toNumber (transactionFee transactionRecord)\<rparr>])
   \<and> (getRecord resp = Some (Inl e) \<and> hasStatusCode e \<longrightarrow>
        fst (executeGetTransactionRecord sdk resp transactionName this) = Inl (Error (message_of e))
        \<and> consensusNodeClientHistorgram (snd (executeGetTransactionRecord sdk resp transactionName this)) =
          consensusNodeClientHistorgram this @
            [\<lparr>obsMode = transactionMode, obsType = transactionName,
              obsStatus = status_of e, obsCost = Fin 0\<rparr>])
   \<and> (getRecord resp = Some (Inl e) \<and> \<not> hasStatusCode e \<longrightarrow>
        executeGetTransactionRecord sdk resp transactionName this = (Inl e, this))
   \<and> (getRecord resp = None \<longrightarrow>
        snd (executeGetTransactionRecord sdk resp transactionName this) = this)"
  by (simp add: length_histogram_executeQuery histogram_executeTransaction
      executeGetTransactionRecord_success executeGetTransactionRecord_status_failure
      executeGetTransactionRecord_other_failure executeGetTransactionRecord_unsupported
      del: constructorName.simps)

theorem one_observation_per_metered_outcome_witness:
  "getRecord \<lparr>transactionId = ''0.0.2@1'', getRecord = Some (Inl insufficientPayerBalanceFailure)\<rparr> =
     Some (Inl insufficientPayerBalanceFailure)
   \<and> hasStatusCode insufficientPayerBalanceFailure
   \<and> fst (executeGetTransactionRecord exampleSdk
        \<lparr>transactionId = ''0.0.2@1'', getRecord = Some (Inl insufficientPayerBalanceFailure)\<rparr>
        ''EthereumTransaction'' freshClient) =
      Inl (Error ''transaction failed precheck with status INSUFFICIENT_PAYER_BALANCE'')
   \<and> consensusNodeClientHistorgram (snd (executeGetTransactionRecord exampleSdk
        \<lparr>transactionId = ''0.0.2@1'', getRecord = Some (Inl insufficientPayerBalanceFailure)\<rparr>
        ''EthereumTransaction'' freshClient)) =
      [\<lparr>obsMode = ''TRANSACTION'', obsType = ''EthereumTransaction'',
        obsStatus = Some Status_InsufficientPayerBalance, obsCost = Fin 0\<rparr>]
   \<and> length (consensusNodeClientHistorgram (snd (executeQuery freeQuery echoClient freshClient))) = 1
   \<and> consensusNodeClientHistorgram
        (snd (executeTransaction (EthereumTransaction [2, 248]) echoClient freshClient)) = []"
  using one_observation_per_metered_outcome [of freeQuery echoClient freshClient
      "EthereumTransaction [2, 248]"
      "\<lparr>transactionId = ''0.0.2@1'', getRecord = Some (Inl insufficientPayerBalanceFailure)\<rparr>"
      settledRecord exampleSdk "''EthereumTransaction''" insufficientPayerBalanceFailure]
  by (simp add: insufficientPayerBalanceFailure_def hasStatusCode_def
      Status_InsufficientPayerBalance_def freshClient_def transactionMode_def)

text \<open>
  The claim as first stated, that a transaction submission rejected with the status
  \<open>INSUFFICIENT_PAYER_BALANCE\<close> leaves one observation with that status and hands the
  status to the caller, does not hold: the submission records no observation, and the
  error raised carries the message only.
\<close>

theorem executeTransaction_unmetered_counterexample:
  "fst (executeTransaction (EthereumTransaction [2, 248])
          (failingClient insufficientPayerBalanceFailure) freshClient) =
     Inl (Error ''transaction failed precheck with status INSUFFICIENT_PAYER_BALANCE'')
   \<and> status_of (Error ''transaction failed precheck with status INSUFFICIENT_PAYER_BALANCE'') = None
   \<and> consensusNodeClientHistorgram
        (snd (executeTransaction (EthereumTransaction [2, 248])
                (failingClient insufficientPayerBalanceFailure) freshClient)) = []"
  by (simp add: executeTransaction_def Let_def failingClient_def insufficientPayerBalanceFailure_def
      hasStatusCode_def Status_InsufficientPayerBalance_def freshClient_def log_def)

text \<open>
  Claim C5, as amended. When the native call of a query or of a transaction fails with a
  status whose code is not 0, the executor raises one new error that carries the native
  message and nothing else of the native failure. Every other failure is raised again
  as it was caught, with its own type and stack.
\<close>

theorem native_failure_normalization:
  "(query_execute client query = (Inl e, query') \<longrightarrow>
      fst (executeQuery query client this) =
        Inl (if hasStatusCode e then Error (message_of e) else e))
   \<and> (transaction_execute client transaction = Inl e \<longrightarrow>
      fst (executeTransaction transaction client this) =
        Inl (if hasStatusCode e then Error (message_of e) else e))"
  by (simp add: fst_executeQuery_failure fst_executeTransaction_failure)

theorem native_failure_normalization_witness:
  "query_execute (failingClient insufficientPayerBalanceFailure) paidQuery =
     (Inl insufficientPayerBalanceFailure, paidQuery)
   \<and> fst (executeQuery paidQuery (failingClient insufficientPayerBalanceFailure) freshClient) =
       Inl (Error ''transaction failed precheck with status INSUFFICIENT_PAYER_BALANCE'')
   \<and> transaction_execute (failingClient insufficientPayerBalanceFailure) (EthereumTransaction [2, 248]) =
       Inl insufficientPayerBalanceFailure
   \<and> fst (executeTransaction (EthereumTransaction [2, 248])
            (failingClient insufficientPayerBalanceFailure) freshClient) =
       Inl (Error ''transaction failed precheck with status INSUFFICIENT_PAYER_BALANCE'')"
  using native_failure_normalization [of "failingClient insufficientPayerBalanceFailure" paidQuery
      insufficientPayerBalanceFailure paidQuery freshClient "EthereumTransaction [2, 248]"]
  by (simp add: failingClient_def insufficientPayerBalanceFailure_def hasStatusCode_def
      Status_InsufficientPayerBalance_def)

text \<open>
  The claim as first stated, that every native failure is replaced by a normalized error
  without the native stack and type, does not hold: a failure of the SDK that carries no
  status reaches the caller unchanged.
\<close>

theorem native_failure_rethrown_counterexample:
  "fst (executeQuery paidQuery (failingClient maxAttemptsFailure) freshClient) = Inl maxAttemptsFailure
   \<and> fst (executeTransaction (EthereumTransaction [2, 248]) (failingClient maxAttemptsFailure)
            freshClient) = Inl maxAttemptsFailure
   \<and> maxAttemptsFailure \<noteq> Error (message_of maxAttemptsFailure)"
  by (simp add: executeQuery_def executeTransaction_def Let_def failingClient_def
      maxAttemptsFailure_def hasStatusCode_def)

section \<open>The contract call query and the transaction record\<close>

text \<open>
  Claim C7. For every call of \<open>submitContractCallQuery\<close>, a to-address whose pruned
  form begins with eleven zero characters is resolved by \<open>ContractId.fromSolidityAddress\<close>
  and any other address by \<open>ContractId.fromEvmAddress\<close>; in both branches the query that
  is executed holds as its payment the amount that the preceding cost estimation
  returned, and when the cost estimation fails no query is executed.
\<close>

theorem submitContractCallQuery_resolution_and_payment:
  "(startsWith (prune0x to) ''00000000000''
      \<and> ContractId_fromSolidityAddress sdk (prune0x to) = Inr contractId
      \<and> query_getCost client (contractCallQuery sdk client contractId (prune0x data) gas) = Inr cost
    \<longrightarrow> submitContractCallQuery sdk to data gas client this =
          executeQuery
            \<lparr>body = ContractCallQuery contractId (Buffer_from_hex sdk (prune0x data)) gas,
             paymentTransactionId = map_option (TransactionId_generate sdk) (operatorAccountId client),
             queryPayment = Some cost\<rparr> client this)
   \<and> (\<not> startsWith (prune0x to) ''00000000000''
      \<and> ContractId_fromEvmAddress sdk 0 0 (prune0x to) = Inr contractId
      \<and> query_getCost client (contractCallQuery sdk client contractId (prune0x data) gas) = Inr cost
    \<longrightarrow> submitContractCallQuery sdk to data gas client this =
          executeQuery
            \<lparr>body = ContractCallQuery contractId (Buffer_from_hex sdk (prune0x data)) gas,
             paymentTransactionId = map_option (TransactionId_generate sdk) (operatorAccountId client),
             queryPayment = Some cost\<rparr> client this)
   \<and> ((if startsWith (prune0x to) ''00000000000''
        then ContractId_fromSolidityAddress sdk (prune0x to)
        else ContractId_fromEvmAddress sdk 0 0 (prune0x to)) = Inr contractId
      \<and> query_getCost client (contractCallQuery sdk client contractId (prune0x data) gas) = Inl e
    \<longrightarrow> submitContractCallQuery sdk to data gas client this = (Inl e, this))"
  by (auto simp: submitContractCallQuery_def Let_def contractCallQuery_def split: option.splits)

text \<open>
  On the example client, which answers a query with the query it was given: the query
  executed for an address of eleven zeros and more, and for an address of another shape.
\<close>

theorem submitContractCallQuery_resolution_and_payment_witness:
  "startsWith (prune0x ''0x00000000000000000000000000000000000003e8'') ''00000000000''
   \<and> fst (submitContractCallQuery exampleSdk ''0x00000000000000000000000000000000000003e8''
             ''0x06fdde03'' (Fin 30000) echoClient freshClient) =
       Inr \<lparr>body = ContractCallQuery \<lparr>shard = 0, realm = 0, num = 1000, evmAddress = None\<rparr> []
                      (Fin 30000),
            paymentTransactionId = Some ''0.0.2@1660000000.000000000'',
            queryPayment = Some 5\<rparr>
   \<and> \<not> startsWith (prune0x ''0x05fba803be258049a27b820088bab1cad2058871'') ''00000000000''
   \<and> fst (submitContractCallQuery exampleSdk ''0x05fba803be258049a27b820088bab1cad2058871''
             ''0x06fdde03'' (Fin 30000) echoClient freshClient) =
       Inr \<lparr>body = ContractCallQuery
                      \<lparr>shard = 0, realm = 0, num = 0,
                       evmAddress = Some ''05fba803be258049a27b820088bab1cad2058871''\<rparr> []
                      (Fin 30000),
            paymentTransactionId = Some ''0.0.2@1660000000.000000000'',
            queryPayment = Some 5\<rparr>"
  using submitContractCallQuery_resolution_and_payment [of
      "''0x00000000000000000000000000000000000003e8''" exampleSdk
      "\<lparr>shard = 0, realm = 0, num = 1000, evmAddress = None\<rparr>" echoClient "''0x06fdde03''"
      "Fin 30000" 5 freshClient]
    submitContractCallQuery_resolution_and_payment [of
      "''0x05fba803be258049a27b820088bab1cad2058871''" exampleSdk
      "\<lparr>shard = 0, realm = 0, num = 0,
        evmAddress = Some ''05fba803be258049a27b820088bab1cad2058871''\<rparr>" echoClient
      "''0x06fdde03''" "Fin 30000" 5 freshClient]
  by (simp add: exampleSdk_def echoClient_def prune0x_def startsWith_def executeQuery_def Let_def
      contractCallQuery_def)

text \<open>
  Claim C8. For every transaction response, \<open>executeGetTransactionRecord\<close> records the
  observation of \<open>TRANSACTION\<close> mode when the record is retrieved, with the status of the
  receipt and the fee of the record as cost. When the response has no \<open>getRecord\<close> it
  fails with the error \<open>Invalid response format\<close>, which carries no status and leaves no
  observation, whereas a failure that the network reports with a status leaves an
  observation with that status.
\<close>

theorem record_retrieval_metric_and_invalid_response:
  "(getRecord resp = Some (Inr transactionRecord) \<longrightarrow>
      fst (executeGetTransactionRecord sdk resp transactionName this) = Inr transactionRecord
      \<and> consensusNodeClientHistorgram (snd (executeGetTransactionRecord sdk resp transactionName this)) =
          consensusNodeClientHistorgram this @
            [\<lparr>obsMode = transactionMode, obsType = transactionName,
              obsStatus = Some (status (receipt transactionRecord)),
              obsCost = toNumber (transactionFee transactionRecord)\<rparr>]
      \<and> (\<bar>transactionFee transactionRecord\<bar> \<le> 2 ^ 53 \<longrightarrow>
           toNumber (transactionFee transactionRecord) =
             Fin (of_int (transactionFee transactionRecord))))
   \<and> (getRecord resp = None \<longrightarrow>
      executeGetTransactionRecord sdk resp transactionName this =
        (Inl (Error (''Invalid response format, expected record availability: '' @
                      JSON_stringify sdk resp)), this)
      \<and> status_of (Error (''Invalid response format, expected record availability: '' @
                      JSON_stringify sdk resp)) = None)
   \<and> (getRecord resp = Some (Inl e) \<and> hasStatusCode e \<longrightarrow>
      consensusNodeClientHistorgram (snd (executeGetTransactionRecord sdk resp transactionName this)) =
        consensusNodeClientHistorgram this @
          [\<lparr>obsMode = transactionMode, obsType = transactionName,
            obsStatus = status_of e, obsCost = Fin 0\<rparr>])"
  by (simp add: executeGetTransactionRecord_success executeGetTransactionRecord_status_failure
      executeGetTransactionRecord_unsupported toNumber_exact)

theorem record_retrieval_metric_and_invalid_response_witness:
  "getRecord \<lparr>transactionId = ''0.0.2@1'', getRecord = Some (Inr settledRecord)\<rparr> =
     Some (Inr settledRecord)
   \<and> executeGetTransactionRecord exampleSdk
        \<lparr>transactionId = ''0.0.2@1'', getRecord = Some (Inr settledRecord)\<rparr>
        ''EthereumTransaction'' freshClient =
      (Inr settledRecord,
       \<lparr>consensusNodeClientHistorgram =
          [\<lparr>obsMode = ''TRANSACTION'', obsType = ''EthereumTransaction'',
            obsStatus = Some Status_Success, obsCost = Fin 1234567\<rparr>],
        operatorAccountGauge =
          [\<lparr>decMode = ''TRANSACTION'', decType = ''EthereumTransaction'',
            decCost = Some (Fin 1234567)\<rparr>],
        logger = [Trace_TransactionCost ''0.0.2@1'' 1234567]\<rparr>)
   \<and> getRecord \<lparr>transactionId = ''0.0.2@1'', getRecord = None\<rparr> = None
   \<and> executeGetTransactionRecord exampleSdk \<lparr>transactionId = ''0.0.2@1'', getRecord = None\<rparr>
        ''EthereumTransaction'' freshClient =
      (Inl (Error ''Invalid response format, expected record availability: {}''), freshClient)"
  using record_retrieval_metric_and_invalid_response [of
      "\<lparr>transactionId = ''0.0.2@1'', getRecord = Some (Inr settledRecord)\<rparr>" settledRecord
      exampleSdk "''EthereumTransaction''" freshClient]
    record_retrieval_metric_and_invalid_response [of
      "\<lparr>transactionId = ''0.0.2@1'', getRecord = None\<rparr>" settledRecord
      exampleSdk "''EthereumTransaction''" freshClient]
  by (simp add: executeGetTransactionRecord_def Let_def captureMetrics_def log_def
      settledRecord_def exampleSdk_def freshClient_def transactionMode_def toNumber_exact)

text \<open>
  Claim C9. For every call of \<open>captureMetrics\<close>, the histogram observes the cost, with
  0 in its place when the cost is absent, 0 or NaN, and the gauge of the operator balance,
  labelled by mode and type, is asked to decrement by the cost as it was passed, absent
  or not. Every query run by \<open>executeQuery\<close> and every record retrieved by
  \<open>executeGetTransactionRecord\<close> so reaches the gauge.
\<close>

theorem captureMetrics_histogram_and_gauge:
  "consensusNodeClientHistorgram (captureMetrics mode type st cost this) =
     consensusNodeClientHistorgram this @
       [\<lparr>obsMode = mode, obsType = type, obsStatus = st,
         obsCost = (case cost of None \<Rightarrow> Fin 0
                    | Some c \<Rightarrow> if c = Fin 0 \<or> c = NaN then Fin 0 else c)\<rparr>]
   \<and> operatorAccountGauge (captureMetrics mode type st cost this) =
     operatorAccountGauge this @ [\<lparr>decMode = mode, decType = type, decCost = cost\<rparr>]
   \<and> operatorAccountGauge (snd (executeQuery query client this)) =
     operatorAccountGauge this @
       [\<lparr>decMode = queryMode, decType = constructorName query,
         decCost = map_option toNumber (queryPayment (snd (query_execute client query)))\<rparr>]
   \<and> (getRecord resp = Some (Inr transactionRecord) \<longrightarrow>
       operatorAccountGauge (snd (executeGetTransactionRecord sdk resp transactionName this)) =
         operatorAccountGauge this @
           [\<lparr>decMode = transactionMode, decType = transactionName,
             decCost = Some (toNumber (transactionFee transactionRecord))\<rparr>])"
proof (intro conjI impI)
  show "consensusNodeClientHistorgram (captureMetrics mode type st cost this) =
     consensusNodeClientHistorgram this @
       [\<lparr>obsMode = mode, obsType = type, obsStatus = st,
         obsCost = (case cost of None \<Rightarrow> Fin 0
                    | Some c \<Rightarrow> if c = Fin 0 \<or> c = NaN then Fin 0 else c)\<rparr>]"
    by (simp add: histogram_captureMetrics truthy_iff split: option.splits)
qed (simp_all only: gauge_captureMetrics gauge_executeQuery gauge_executeGetTransactionRecord_success)

theorem captureMetrics_histogram_and_gauge_witness:
  "consensusNodeClientHistorgram
     (captureMetrics ''QUERY'' ''FileContentsQuery'' (Some Status_Success) None freshClient) =
     [\<lparr>obsMode = ''QUERY'', obsType = ''FileContentsQuery'', obsStatus = Some Status_Success,
       obsCost = Fin 0\<rparr>]
   \<and> operatorAccountGauge
       (captureMetrics ''QUERY'' ''FileContentsQuery'' (Some Status_Success) None freshClient) =
     [\<lparr>decMode = ''QUERY'', decType = ''FileContentsQuery'', decCost = None\<rparr>]
   \<and> operatorAccountGauge (snd (executeQuery freeQuery echoClient freshClient)) =
     [\<lparr>decMode = ''QUERY'', decType = ''FileContentsQuery'', decCost = None\<rparr>]
   \<and> getRecord \<lparr>transactionId = ''0.0.2@1'', getRecord = Some (Inr settledRecord)\<rparr> =
       Some (Inr settledRecord)
   \<and> operatorAccountGauge (snd (executeGetTransactionRecord exampleSdk
         \<lparr>transactionId = ''0.0.2@1'', getRecord = Some (Inr settledRecord)\<rparr>
         ''EthereumTransaction'' freshClient)) =
     [\<lparr>decMode = ''TRANSACTION'', decType = ''EthereumTransaction'',
       decCost = Some (Fin 1234567)\<rparr>]"
  using captureMetrics_histogram_and_gauge [of "''QUERY''" "''FileContentsQuery''"
      "Some Status_Success" None freshClient freeQuery echoClient
      "\<lparr>transactionId = ''0.0.2@1'', getRecord = Some (Inr settledRecord)\<rparr>" settledRecord
      exampleSdk "''EthereumTransaction''"]
  by (simp add: freshClient_def freeQuery_def echoClient_def settledRecord_def queryMode_def
      transactionMode_def toNumber_exact)

end
